theory Spec2Isabelle
  imports Main "HOL-Library.Sublist"
begin

section \<open>The remix-dev command line: watch, dev and build (cli/commands.ts)\<close>

text \<open>
  The commands of \<^verbatim>\<open>packages/remix-dev/cli/commands.ts\<close> are embedded as functions
  on an explicit state. Calls into collaborators (the console, the file system, express,
  the WebSocket server, the compiler) are recorded, in call order, in a trace of effects;
  what a collaborator answers is a parameter of the model, gathered in the record
  \<open>platform\<close>. A \<^verbatim>\<open>throw\<close>, and the exit of the process, is a result
  \<open>Inl (error, state)\<close>, so that the effects made before it stay visible.
\<close>

subsection \<open>Strings and paths\<close>

type_synonym path = string

text \<open>\<^verbatim>\<open>key.startsWith(buildPath)\<close>: the code units of \<open>buildPath\<close> begin \<open>key\<close>.\<close>

definition startsWith :: "string \<Rightarrow> string \<Rightarrow> bool" where
  "startsWith key buildPath = prefix buildPath key"

text \<open>
  The disc emoji U+1F4BF that starts every line of \<^verbatim>\<open>log\<close> (line 196), in UTF-8.
\<close>

definition disc :: string where
  "disc = [CHR 0xF0, CHR 0x9F, CHR 0x92, CHR 0xBF]"

text \<open>JavaScript truthiness of a \<^verbatim>\<open>string | undefined\<close>: undefined and the empty string are falsy.\<close>

fun truthy :: "string option \<Rightarrow> bool" where
  "truthy None = False"
| "truthy (Some s) = (s \<noteq> [])"

subsection \<open>The module cache and its purge (lines 307-313)\<close>

text \<open>
  \<^verbatim>\<open>require.cache\<close> is an object from absolute file names to modules: an association
  list in insertion order, the order in which \<^verbatim>\<open>for (let key in require.cache)\<close>
  visits the keys. \<^verbatim>\<open>delete require.cache[key]\<close> removes the entry of that key.
\<close>

type_synonym 'm require_cache = "(path \<times> 'm) list"

definition delete_key :: "path \<Rightarrow> 'm require_cache \<Rightarrow> 'm require_cache" where
  "delete_key key cache = filter (\<lambda>entry. fst entry \<noteq> key) cache"

text \<open>
  The loop body, run over the keys that the \<^verbatim>\<open>for ... in\<close> enumerates: the keys present
  when the loop starts. The only key a pass deletes is the one it is visiting, so no key
  is removed before its own visit.
\<close>

fun purge_keys :: "path \<Rightarrow> path list \<Rightarrow> 'm require_cache \<Rightarrow> 'm require_cache" where
  "purge_keys buildPath [] cache = cache"
| "purge_keys buildPath (key # keys) cache =
     purge_keys buildPath keys
       (if startsWith key buildPath then delete_key key cache else cache)"

definition purgeAppRequireCache :: "path \<Rightarrow> 'm require_cache \<Rightarrow> 'm require_cache" where
  "purgeAppRequireCache buildPath cache = purge_keys buildPath (map fst cache) cache"

subsection \<open>Errors, the file system, connections, the configuration\<close>

text \<open>
  \<open>Error msg\<close> is \<^verbatim>\<open>new Error(msg)\<close>; the others are the failures of the collaborators
  that the model keeps: the error codes of Node's \<^verbatim>\<open>fs\<close> and the exception of
  \<^verbatim>\<open>ws\<close> when \<^verbatim>\<open>send\<close> is called on a socket that is still connecting.
  \<open>ProcessExit code\<close> is not an exception: it says that the process has exited with that
  code (\<^verbatim>\<open>process.exit\<close>), after which no continuation, \<^verbatim>\<open>catch\<close> or \<^verbatim>\<open>finally\<close>
  block runs.
\<close>

datatype error =
    Error string
  | ENOENT path
  | EISDIR path
  | EEXIST path
  | ENOTDIR path
  | SocketNotOpen
  | ProcessExit nat

datatype fs_node = File | Directory

text \<open>
  A file is found by its location: the names on the way from the root, as
  \<^verbatim>\<open>path.resolve\<close> computes them from a path string and the working directory. A path
  that starts with a slash is absolute, any other continues the working directory; empty
  names (a doubled or trailing slash) and \<^verbatim>\<open>.\<close> are skipped and \<^verbatim>\<open>..\<close> steps back.
  There are no symbolic links.
\<close>

type_synonym location = "string list"

type_synonym filesystem = "location \<Rightarrow> fs_node option"

fun split_segments :: "string \<Rightarrow> string \<Rightarrow> string list" where
  "split_segments seg [] = [seg]"
| "split_segments seg (ch # rest) =
     (if ch = CHR ''/'' then seg # split_segments [] rest else split_segments (seg @ [ch]) rest)"

fun walk :: "location \<Rightarrow> string list \<Rightarrow> location" where
  "walk loc [] = loc"
| "walk loc (seg # segs) =
     (if seg = [] \<or> seg = ''.'' then walk loc segs
      else if seg = ''..'' then walk (butlast loc) segs
      else walk (loc @ [seg]) segs)"

definition resolve :: "path \<Rightarrow> path \<Rightarrow> location" where
  "resolve working p =
     (if take 1 p = ''/'' then walk [] (split_segments [] p)
      else walk (walk [] (split_segments [] working)) (split_segments [] p))"

text \<open>A location lies inside a directory when the way to it passes through the directory.\<close>

definition inside :: "location \<Rightarrow> location \<Rightarrow> bool" where
  "inside dir loc = strict_prefix dir loc"

text \<open>
  \<^verbatim>\<open>fse.emptyDirSync(dir)\<close> (fs-extra): removes every item of the directory, recursively;
  when the directory cannot be read it is created instead, with the directories on the
  way to it, which fails with EEXIST when a file is at that location and with ENOTDIR
  when a file is on the way.
\<close>

definition fs_emptyDir :: "path \<Rightarrow> path \<Rightarrow> filesystem \<Rightarrow> error + filesystem" where
  "fs_emptyDir working dir fs =
     (let at = resolve working dir
      in if fs at = Some File then Inl (EEXIST dir)
         else if list_ex (\<lambda>above. fs above = Some File) (prefixes at) then Inl (ENOTDIR dir)
         else Inr (\<lambda>loc. if inside at loc then None
                        else if prefix loc at then Some Directory
                        else fs loc))"

text \<open>
  \<^verbatim>\<open>fse.rmSync(path)\<close> with no options (Node's \<^verbatim>\<open>fs.rmSync\<close>, \<^verbatim>\<open>force\<close> and
  \<^verbatim>\<open>recursive\<close> both false): removes a file, throws ENOENT when nothing is at that
  location and EISDIR when a directory is.
\<close>

definition fs_rm :: "path \<Rightarrow> path \<Rightarrow> filesystem \<Rightarrow> error + filesystem" where
  "fs_rm working p fs =
     (let at = resolve working p
      in case fs at of
           None \<Rightarrow> Inl (ENOENT p)
         | Some Directory \<Rightarrow> Inl (EISDIR p)
         | Some File \<Rightarrow> Inr (fs(at := None)))"

text \<open>The \<^verbatim>\<open>readyState\<close> of a WebSocket, and a connection with the record of what was sent on it.\<close>

datatype ready_state = CONNECTING | OPEN | CLOSING | CLOSED

record client =
  readyState :: ready_state
  sent :: "string list"

text \<open>
  \<^verbatim>\<open>client.send(data)\<close> of the \<^verbatim>\<open>ws\<close> package: throws on a socket that is still
  connecting, transmits on an open one, and drops the data on a closing or closed one.
\<close>

definition ws_send :: "client \<Rightarrow> string \<Rightarrow> error + client" where
  "ws_send cl data =
     (case readyState cl of
        CONNECTING \<Rightarrow> Inl SocketNotOpen
      | OPEN \<Rightarrow> Inr (cl\<lparr>sent := sent cl @ [data]\<rparr>)
      | CLOSING \<Rightarrow> Inr cl
      | CLOSED \<Rightarrow> Inr cl)"

text \<open>The two shapes of event that \<^verbatim>\<open>broadcast\<close> is called with (lines 198 and 211).\<close>

datatype broadcast_event = LOG string | RELOAD

text \<open>
  Modelled from the spec: the type \<^verbatim>\<open>RemixConfig\<close> of \<^verbatim>\<open>../config\<close>, which is not
  part of the sources at hand. The spec (section 3, BuildConfig) lists a root directory,
  an output directory, a compiled server artifact path, a live-reload channel port, a
  broadcast delay and an optional custom server entry; the fields carry the names under
  which commands.ts reads them.
\<close>

record RemixConfig =
  rootDirectory :: path
  assetsBuildDirectory :: path
  serverBuildPath :: path
  devServerPort :: nat
  devServerBroadcastDelay :: nat
  serverEntryPoint :: "path option"

text \<open>
  Modelled from the spec: the values of the enum \<^verbatim>\<open>BuildMode\<close> of \<^verbatim>\<open>../build\<close>
  (spec section 3: development, production). A mode is the string it is at run time.
\<close>

definition BuildMode_Development :: string where
  "BuildMode_Development = ''development''"

definition BuildMode_Production :: string where
  "BuildMode_Production = ''production''"

subsection \<open>Effects and state\<close>

text \<open>The two middlewares that \<^verbatim>\<open>dev\<close> installs (lines 270-274).\<close>

datatype middleware = PurgeMiddleware path | CreateApp path string

datatype effect =
    ConsoleLog string
  | ConsoleWarn string
  | LoggingLog string
  | RequireServe
  | ReadConfig path
  | LoadEnv path
  | GetPort
  | Express
  | AppDisable string
  | AppUse middleware
  | AppListen nat "string option"
  | ServerClose
  | NewWebSocketServer nat
  | CompilerWatch string
  | CompilerBuild string bool
  | FormatBuildFailure string
  | ExitHook
  | WssClose
  | CloseWatcher
  | EmptyDirSync path
  | RmSync path

text \<open>
  The state outside a call of \<^verbatim>\<open>watch\<close>: the trace of calls made so far, the file
  system, and the variable \<^verbatim>\<open>server\<close> of \<^verbatim>\<open>dev\<close> (line 276), which the callback that
  \<^verbatim>\<open>dev\<close> hands to \<^verbatim>\<open>watch\<close> assigns. A server handle is the port and host it was
  bound with.
\<close>

record world =
  trace :: "effect list"
  files :: filesystem
  server :: "(nat \<times> string option) option"

text \<open>
  The variables that the closures of one call of \<^verbatim>\<open>watch\<close> share and that its callers
  cannot reach: \<^verbatim>\<open>start\<close> (line 178), the connections \<^verbatim>\<open>wss.clients\<close>, the timers
  that \<^verbatim>\<open>broadcast\<close> has set and that have not fired yet (oldest first, each with its
  delay), and the events \<^verbatim>\<open>broadcast\<close> was called with so far, in call order.
\<close>

record watch_closure =
  start :: int
  clients :: "client list"
  timers :: "(nat \<times> broadcast_event) list"
  published :: "broadcast_event list"

text \<open>\<^verbatim>\<open>WatchCallbacks\<close> (lines 164-167): two optional callbacks, acting on the caller's state.\<close>

record WatchCallbacks =
  onRebuildStart :: "(world \<Rightarrow> world) option"
  onInitialBuild :: "(world \<Rightarrow> world) option"

text \<open>
  What the collaborators answer. \<open>isBuildMode\<close> is the type guard of \<^verbatim>\<open>../build\<close> on a
  defined argument (it holds of no \<^verbatim>\<open>undefined\<close>, which is not a \<^verbatim>\<open>BuildMode\<close>);
  \<open>prettyMs\<close>, \<open>path_relative\<close>, \<open>cwd\<close> and \<open>JSON_stringify\<close> are the library
  functions of those names; \<open>readConfig\<close> is \<^verbatim>\<open>readConfig\<close> of \<^verbatim>\<open>../config\<close>;
  \<open>serve_installed\<close> tells whether the two \<^verbatim>\<open>require\<close> calls of lines 245-247
  succeed; \<open>getPort\<close> is the outcome of the call of lines 260-262; \<open>env_HOST\<close> is
  \<^verbatim>\<open>process.env.HOST\<close>; \<open>lan_address\<close> is the outcome of the search of lines
  284-286; \<open>port_string\<close> renders a port number in a template string;
  \<open>compiler_build\<close> is \<^verbatim>\<open>compiler.build\<close>, which either reports a failure or
  leaves a new file system.
\<close>

record platform =
  isBuildMode :: "string \<Rightarrow> bool"
  prettyMs :: "int \<Rightarrow> string"
  path_relative :: "path \<Rightarrow> path \<Rightarrow> path"
  cwd :: path
  JSON_stringify :: "broadcast_event \<Rightarrow> string"
  readConfig :: "path \<Rightarrow> error + RemixConfig"
  serve_installed :: bool
  getPort :: "error + nat"
  env_HOST :: "string option"
  lan_address :: "string option"
  port_string :: "nat \<Rightarrow> string"
  compiler_build :: "RemixConfig \<Rightarrow> string \<Rightarrow> bool \<Rightarrow> filesystem \<Rightarrow> string + filesystem"

definition emit :: "effect \<Rightarrow> world \<Rightarrow> world" where
  "emit e w = w\<lparr>trace := trace w @ [e]\<rparr>"

text \<open>
  A file-system call: the call is recorded, then it fails or changes the file system. The
  path is resolved from the working directory of the process.
\<close>

definition emptyDirSync :: "platform \<Rightarrow> path \<Rightarrow> world \<Rightarrow> (error \<times> world) + world" where
  "emptyDirSync plat dir w =
     (let w1 = emit (EmptyDirSync dir) w
      in case fs_emptyDir (cwd plat) dir (files w1) of
           Inl e \<Rightarrow> Inl (e, w1)
         | Inr files' \<Rightarrow> Inr (w1\<lparr>files := files'\<rparr>))"

definition rmSync :: "platform \<Rightarrow> path \<Rightarrow> world \<Rightarrow> (error \<times> world) + world" where
  "rmSync plat p w =
     (let w1 = emit (RmSync p) w
      in case fs_rm (cwd plat) p (files w1) of
           Inl e \<Rightarrow> Inl (e, w1)
         | Inr files' \<Rightarrow> Inr (w1\<lparr>files := files'\<rparr>))"

text \<open>Calling an optional callback: \<^verbatim>\<open>f?.()\<close>.\<close>

fun call_optional :: "(world \<Rightarrow> world) option \<Rightarrow> world \<Rightarrow> world" where
  "call_optional None w = w"
| "call_optional (Some f) w = f w"

subsection \<open>The mode of each command (lines 130, 175, 256)\<close>

text \<open>
  \<^verbatim>\<open>isBuildMode(modeArg) ? modeArg : BuildMode.Production\<close>, and the same line with
  \<^verbatim>\<open>BuildMode.Development\<close> in \<^verbatim>\<open>watch\<close> and in \<^verbatim>\<open>dev\<close>. An absent argument is
  \<open>None\<close>.
\<close>

definition build_mode :: "platform \<Rightarrow> string option \<Rightarrow> string" where
  "build_mode plat modeArg =
     (case modeArg of
        None \<Rightarrow> BuildMode_Production
      | Some m \<Rightarrow> if isBuildMode plat m then m else BuildMode_Production)"

definition watch_mode :: "platform \<Rightarrow> string option \<Rightarrow> string" where
  "watch_mode plat modeArg =
     (case modeArg of
        None \<Rightarrow> BuildMode_Development
      | Some m \<Rightarrow> if isBuildMode plat m then m else BuildMode_Development)"

definition dev_mode :: "platform \<Rightarrow> string option \<Rightarrow> string" where
  "dev_mode plat modeArg =
     (case modeArg of
        None \<Rightarrow> BuildMode_Development
      | Some m \<Rightarrow> if isBuildMode plat m then m else BuildMode_Development)"

subsection \<open>build (lines 125-162)\<close>

text \<open>The warning sign U+26A0 U+FE0F in UTF-8; lines 136 and 145 print 42 of them.\<close>

definition warning_signs :: string where
  "warning_signs =
     concat (replicate 42 [CHR 0xE2, CHR 0x9A, CHR 0xA0, CHR 0xEF, CHR 0xB8, CHR 0x8F])"

definition sourcemap_warning :: string where
  "sourcemap_warning =
     ''You have enabled source maps in production. This will make your '' @
     ''server-side code visible to the public and is highly discouraged! If '' @
     ''you insist, please ensure you are using environment variables for '' @
     ''secrets and not hard-coding them into your source!''"

text \<open>
  \<open>now0\<close> and \<open>now1\<close> are the two readings of \<^verbatim>\<open>Date.now()\<close> (lines 149 and 161).
  A failure reported by the compiler runs \<^verbatim>\<open>onBuildFailure\<close>, which formats it and
  throws \<^verbatim>\<open>Error()\<close>.
\<close>

definition build ::
  "platform \<Rightarrow> path \<Rightarrow> string option \<Rightarrow> bool \<Rightarrow> int \<Rightarrow> int \<Rightarrow> world \<Rightarrow> (error \<times> world) + world" where
  "build plat remixRoot modeArg sourcemap now0 now1 w =
     (let mode = build_mode plat modeArg;
          w1 = emit (LoggingLog (''Building Remix app in '' @ mode @ '' mode...'')) w;
          w2 = (if modeArg = Some BuildMode_Production \<and> sourcemap
                then emit (ConsoleWarn (warning_signs @ [CHR 0x0A]))
                       (emit (ConsoleWarn sourcemap_warning)
                          (emit (ConsoleWarn (CHR 0x0A # warning_signs)) w1))
                else w1);
          w3 = emit (ReadConfig remixRoot) w2
      in case readConfig plat remixRoot of
           Inl e \<Rightarrow> Inl (e, w3)
         | Inr config \<Rightarrow>
             (case emptyDirSync plat (assetsBuildDirectory config) w3 of
                Inl ew \<Rightarrow> Inl ew
              | Inr w4 \<Rightarrow>
                  (let w5 = emit (CompilerBuild mode sourcemap) w4
                   in case compiler_build plat config mode sourcemap (files w5) of
                        Inl failure \<Rightarrow> Inl (Error [], emit (FormatBuildFailure failure) w5)
                      | Inr files' \<Rightarrow>
                          Inr (emit (LoggingLog (''Built in '' @ prettyMs plat (now1 - now0)))
                                 (w5\<lparr>files := files'\<rparr>)))))"

subsection \<open>watch (lines 169-238)\<close>

text \<open>
  \<^verbatim>\<open>broadcast\<close> (lines 185-193) sets a timer and returns. The body of the timer is
  \<open>deliver\<close>: it visits \<^verbatim>\<open>wss.clients\<close> and sends to the connections that are open.
\<close>

definition watch_broadcast :: "RemixConfig \<Rightarrow> broadcast_event \<Rightarrow> watch_closure \<Rightarrow> watch_closure" where
  "watch_broadcast config event c =
     c\<lparr>timers := timers c @ [(devServerBroadcastDelay config, event)],
       published := published c @ [event]\<rparr>"

fun deliver :: "platform \<Rightarrow> broadcast_event \<Rightarrow> client list \<Rightarrow> error + client list" where
  "deliver plat event [] = Inr []"
| "deliver plat event (cl # cls) =
     (if readyState cl = OPEN
      then (case ws_send cl (JSON_stringify plat event) of
              Inl e \<Rightarrow> Inl e
            | Inr cl' \<Rightarrow>
                (case deliver plat event cls of
                   Inl e \<Rightarrow> Inl e
                 | Inr cls' \<Rightarrow> Inr (cl' # cls')))
      else (case deliver plat event cls of
              Inl e \<Rightarrow> Inl e
            | Inr cls' \<Rightarrow> Inr (cl # cls')))"

text \<open>The oldest pending timer fires: its event is delivered and the timer is gone.\<close>

definition timer_fires :: "platform \<Rightarrow> watch_closure \<Rightarrow> error + watch_closure" where
  "timer_fires plat c =
     (case timers c of
        [] \<Rightarrow> Inr c
      | (delay, event) # rest \<Rightarrow>
          (case deliver plat event (clients c) of
             Inl e \<Rightarrow> Inl e
           | Inr cls \<Rightarrow> Inr (c\<lparr>clients := cls, timers := rest\<rparr>)))"

text \<open>\<^verbatim>\<open>log\<close> (lines 195-199): the line goes to the console and to \<^verbatim>\<open>broadcast\<close>.\<close>

definition watch_log ::
  "RemixConfig \<Rightarrow> string \<Rightarrow> watch_closure \<times> world \<Rightarrow> watch_closure \<times> world" where
  "watch_log config raw_message cw =
     (let message = disc @ '' '' @ raw_message
      in (watch_broadcast config (LOG message) (fst cw), emit (ConsoleLog message) (snd cw)))"

text \<open>
  The hooks that \<^verbatim>\<open>watch\<close> hands to \<^verbatim>\<open>compiler.watch\<close> (lines 201-222). A hook that
  reads the clock carries the reading of \<^verbatim>\<open>Date.now()\<close> of that call; a file hook
  carries the file. \<^verbatim>\<open>onInitialBuild\<close> is the caller's callback, handed on as it is
  (line 203).
\<close>

datatype hook =
    InitialBuild
  | RebuildStart int
  | RebuildFinish int
  | FileCreated path
  | FileChanged path
  | FileDeleted path

fun watch_hook ::
  "platform \<Rightarrow> RemixConfig \<Rightarrow> WatchCallbacks \<Rightarrow> hook \<Rightarrow> watch_closure \<times> world
     \<Rightarrow> watch_closure \<times> world" where
  "watch_hook plat config cbs InitialBuild (c, w) =
     (c, call_optional (onInitialBuild cbs) w)"
| "watch_hook plat config cbs (RebuildStart now) (c, w) =
     watch_log config ''Rebuilding...''
       (c\<lparr>start := now\<rparr>, call_optional (onRebuildStart cbs) w)"
| "watch_hook plat config cbs (RebuildFinish now) (c, w) =
     (let cw' = watch_log config (''Rebuilt in '' @ prettyMs plat (now - start c)) (c, w)
      in (watch_broadcast config RELOAD (fst cw'), snd cw'))"
| "watch_hook plat config cbs (FileCreated file) (c, w) =
     watch_log config (''File created: '' @ path_relative plat (cwd plat) file) (c, w)"
| "watch_hook plat config cbs (FileChanged file) (c, w) =
     watch_log config (''File changed: '' @ path_relative plat (cwd plat) file) (c, w)"
| "watch_hook plat config cbs (FileDeleted file) (c, w) =
     watch_log config (''File deleted: '' @ path_relative plat (cwd plat) file) (c, w)"

text \<open>
  What happens while \<^verbatim>\<open>watch\<close> waits (for \<^verbatim>\<open>compiler.watch\<close>, then for the exit hook):
  the compiler fires a hook, the oldest timer of \<^verbatim>\<open>broadcast\<close> fires, or the network
  changes the connections of the WebSocket server. An exception in a timer is an error.
\<close>

datatype tick = Hook hook | Timeout | Network "client list \<Rightarrow> client list"

fun watch_tick ::
  "platform \<Rightarrow> RemixConfig \<Rightarrow> WatchCallbacks \<Rightarrow> tick \<Rightarrow> watch_closure \<times> world
     \<Rightarrow> (error \<times> world) + (watch_closure \<times> world)" where
  "watch_tick plat config cbs (Hook h) cw = Inr (watch_hook plat config cbs h cw)"
| "watch_tick plat config cbs Timeout cw =
     (case timer_fires plat (fst cw) of
        Inl e \<Rightarrow> Inl (e, snd cw)
      | Inr c' \<Rightarrow> Inr (c', snd cw))"
| "watch_tick plat config cbs (Network f) cw =
     Inr ((fst cw)\<lparr>clients := f (clients (fst cw))\<rparr>, snd cw)"

fun watch_ticks ::
  "platform \<Rightarrow> RemixConfig \<Rightarrow> WatchCallbacks \<Rightarrow> tick list \<Rightarrow> watch_closure \<times> world
     \<Rightarrow> (error \<times> world) + (watch_closure \<times> world)" where
  "watch_ticks plat config cbs [] cw = Inr cw"
| "watch_ticks plat config cbs (t # ts) cw =
     (case watch_tick plat config cbs t cw of
        Inl ew \<Rightarrow> Inl ew
      | Inr cw' \<Rightarrow> watch_ticks plat config cbs ts cw')"

text \<open>
  How the exit hook comes to fire, and the code the process exits with. The package
  \<^verbatim>\<open>exit-hook\<close> calls its callbacks when the process receives SIGINT or SIGTERM or
  the message \<^verbatim>\<open>shutdown\<close>, and then calls \<^verbatim>\<open>process.exit\<close> in the same turn (with
  128 plus the number of the signal, and 0 for the message); it also calls them in the
  \<^verbatim>\<open>exit\<close> event of a process that is exiting already.
\<close>

datatype shutdown = Signal nat | ShutdownMessage | ProcessExiting nat

fun exit_code :: "shutdown \<Rightarrow> nat" where
  "exit_code (Signal number) = 128 + number"
| "exit_code ShutdownMessage = 0"
| "exit_code (ProcessExiting code) = code"

text \<open>
  One run of the collaborators around \<^verbatim>\<open>watch\<close>: the reading of the clock at line 178,
  what happens until \<^verbatim>\<open>compiler.watch\<close> settles, the error it rejects with if it
  does not resolve, the reading at line 224, what happens from there until the exit hook
  fires, and how the exit hook comes to fire.
\<close>

record session =
  now_start :: int
  initial_ticks :: "tick list"
  watch_rejection :: "error option"
  now_built :: int
  later_ticks :: "tick list"
  shutdown :: shutdown

text \<open>
  Lines 174-201, up to the call of \<^verbatim>\<open>compiler.watch\<close>. The first argument is a root
  directory (\<open>Inl\<close>) or a configuration (\<open>Inr\<close>).
\<close>

definition watch_open ::
  "platform \<Rightarrow> path + RemixConfig \<Rightarrow> string option \<Rightarrow> int \<Rightarrow> world
     \<Rightarrow> (error \<times> world) + (RemixConfig \<times> string \<times> watch_closure \<times> world)" where
  "watch_open plat remixRootOrConfig modeArg now w =
     (let mode = watch_mode plat modeArg;
          w1 = emit (ConsoleLog (''Watching Remix app in '' @ mode @ '' mode...'')) w
      in case (case remixRootOrConfig of
                 Inr config \<Rightarrow> Inr (config, w1)
               | Inl remixRoot \<Rightarrow>
                   (case readConfig plat remixRoot of
                      Inl e \<Rightarrow> Inl (e, emit (ReadConfig remixRoot) w1)
                    | Inr config \<Rightarrow> Inr (config, emit (ReadConfig remixRoot) w1))) of
           Inl ew \<Rightarrow> Inl ew
         | Inr (config, w2) \<Rightarrow>
             Inr (config, mode,
                  \<lparr>start = now, clients = [], timers = [], published = []\<rparr>,
                  emit (CompilerWatch mode)
                    (emit (NewWebSocketServer (devServerPort config)) w2)))"

text \<open>
  The continuation of lines 232-237, which the callback of the exit hook queues when it
  resolves the promise of line 230: what the continuation does when it runs.
\<close>

definition watch_teardown ::
  "platform \<Rightarrow> RemixConfig \<Rightarrow> watch_closure \<times> world \<Rightarrow> (error \<times> world) + world" where
  "watch_teardown plat config cw =
     (let w1 = emit WssClose (snd cw);
          w2 = emit CloseWatcher w1
      in case emptyDirSync plat (assetsBuildDirectory config) w2 of
           Inl ew \<Rightarrow> Inl ew
         | Inr w3 \<Rightarrow> rmSync plat (serverBuildPath config) w3)"

text \<open>The callbacks that are in force: \<^verbatim>\<open>callbacks || {}\<close> (line 174).\<close>

definition given_callbacks :: "WatchCallbacks option \<Rightarrow> WatchCallbacks" where
  "given_callbacks callbacks =
     (case callbacks of
        Some given \<Rightarrow> given
      | None \<Rightarrow> \<lparr>onRebuildStart = None, onInitialBuild = None\<rparr>)"

text \<open>
  The state of a call of \<^verbatim>\<open>watch\<close> while it waits for \<^verbatim>\<open>compiler.watch\<close>
  (line 201), after the ticks \<open>ticks\<close> have happened.
\<close>

definition watch_until_resolved ::
  "platform \<Rightarrow> path + RemixConfig \<Rightarrow> string option \<Rightarrow> WatchCallbacks option \<Rightarrow> int \<Rightarrow> tick list
     \<Rightarrow> world \<Rightarrow> (error \<times> world) + (RemixConfig \<times> watch_closure \<times> world)" where
  "watch_until_resolved plat remixRootOrConfig modeArg callbacks now ticks w =
     (case watch_open plat remixRootOrConfig modeArg now w of
        Inl ew \<Rightarrow> Inl ew
      | Inr (config, mode, c, w1) \<Rightarrow>
          (case watch_ticks plat config (given_callbacks callbacks) ticks (c, w1) of
             Inl ew \<Rightarrow> Inl ew
           | Inr cw2 \<Rightarrow> Inr (config, cw2)))"

text \<open>
  The state of a call of \<^verbatim>\<open>watch\<close> while it waits for the exit hook (lines 224-231),
  after the ticks of the session have happened. When \<^verbatim>\<open>compiler.watch\<close> rejects, the
  \<^verbatim>\<open>await\<close> of line 201 throws and the call ends there.
\<close>

definition watch_until_exit ::
  "platform \<Rightarrow> path + RemixConfig \<Rightarrow> string option \<Rightarrow> WatchCallbacks option \<Rightarrow> session
     \<Rightarrow> world \<Rightarrow> (error \<times> world) + (RemixConfig \<times> watch_closure \<times> world)" where
  "watch_until_exit plat remixRootOrConfig modeArg callbacks run w =
     (case watch_until_resolved plat remixRootOrConfig modeArg callbacks
             (now_start run) (initial_ticks run) w of
        Inl ew \<Rightarrow> Inl ew
      | Inr (config, c2, w2) \<Rightarrow>
          (case watch_rejection run of
             Some e \<Rightarrow> Inl (e, w2)
           | None \<Rightarrow>
               (let w3 = emit ExitHook
                           (emit (ConsoleLog (disc @ '' Built in '' @
                                    prettyMs plat (now_built run - start c2))) w2)
                in case watch_ticks plat config (given_callbacks callbacks) (later_ticks run)
                          (c2, w3) of
                     Inl ew \<Rightarrow> Inl ew
                   | Inr cw4 \<Rightarrow> Inr (config, cw4))))"

text \<open>
  \<^verbatim>\<open>watch\<close>. When the exit hook fires, the callback of lines 227-229 resolves the
  promise, and that only queues the continuation of lines 232-237. The process exits in
  the same turn, before a queued continuation can run: \<^verbatim>\<open>exit-hook\<close> calls
  \<^verbatim>\<open>process.exit\<close> right after the callbacks, or is itself running in the \<^verbatim>\<open>exit\<close>
  event. So the call ends with the exit of the process, in the world as it is when the
  exit hook fires, and \<open>watch_teardown\<close> is not run.
\<close>

definition watch ::
  "platform \<Rightarrow> path + RemixConfig \<Rightarrow> string option \<Rightarrow> WatchCallbacks option \<Rightarrow> session \<Rightarrow> world
     \<Rightarrow> (error \<times> world) + world" where
  "watch plat remixRootOrConfig modeArg callbacks run w =
     (case watch_until_exit plat remixRootOrConfig modeArg callbacks run w of
        Inl ew \<Rightarrow> Inl ew
      | Inr (config, cw) \<Rightarrow> Inl (ProcessExit (exit_code (shutdown run)), snd cw))"

subsection \<open>dev (lines 240-305)\<close>

text \<open>
  The callback \<^verbatim>\<open>onInitialBuild\<close> of lines 280-300: it binds the listener and assigns
  \<^verbatim>\<open>server\<close>; \<^verbatim>\<open>onListen\<close> logs the address once the listener is bound.
\<close>

definition dev_onListen :: "platform \<Rightarrow> nat \<Rightarrow> world \<Rightarrow> world" where
  "dev_onListen plat port w =
     (case (if truthy (env_HOST plat) then env_HOST plat else lan_address plat) of
        None \<Rightarrow>
          emit (ConsoleLog (''Remix App Server started at http://localhost:'' @ port_string plat port)) w
      | Some address \<Rightarrow>
          if address = []
          then emit (ConsoleLog (''Remix App Server started at http://localhost:'' @
                       port_string plat port)) w
          else emit (ConsoleLog (''Remix App Server started at http://localhost:'' @
                       port_string plat port @ '' (http://'' @ address @ '':'' @
                       port_string plat port @ '')'')) w)"

definition dev_onInitialBuild :: "platform \<Rightarrow> nat \<Rightarrow> world \<Rightarrow> world" where
  "dev_onInitialBuild plat port w =
     (let host = (if truthy (env_HOST plat) then env_HOST plat else None);
          w1 = emit (AppListen port host) w;
          w2 = w1\<lparr>server := Some (port, host)\<rparr>
      in dev_onListen plat port w2)"

text \<open>
  Lines 241-276: everything before the call of \<^verbatim>\<open>watch\<close>. It fails when
  \<^verbatim>\<open>@remix-run/serve\<close> cannot be loaded, when the configuration cannot be read, when
  no port is found, and when the configuration has a server entry point.
\<close>

definition dev_prepare ::
  "platform \<Rightarrow> path \<Rightarrow> string option \<Rightarrow> world
     \<Rightarrow> (error \<times> world) + (RemixConfig \<times> string \<times> nat \<times> world)" where
  "dev_prepare plat remixRoot modeArg w =
     (let w1 = emit RequireServe w
      in if \<not> serve_installed plat
         then Inl (Error (''Could not locate @remix-run/serve. Please verify you have it installed '' @
                          ''to use the dev command.''), w1)
         else
           (let w2 = emit (ReadConfig remixRoot) w1
            in case readConfig plat remixRoot of
                 Inl e \<Rightarrow> Inl (e, w2)
               | Inr config \<Rightarrow>
                   (let mode = dev_mode plat modeArg;
                        w3 = emit (LoadEnv (rootDirectory config)) w2;
                        w4 = emit GetPort w3
                    in case getPort plat of
                         Inl e \<Rightarrow> Inl (e, w4)
                       | Inr port \<Rightarrow>
                           if truthy (serverEntryPoint config)
                           then Inl (Error ''remix dev is not supported for custom servers.'', w4)
                           else
                             (let w5 = emit Express w4;
                                  w6 = emit (AppDisable ''x-powered-by'') w5;
                                  w7 = emit (AppUse (PurgeMiddleware (serverBuildPath config))) w6;
                                  w8 = emit (AppUse (CreateApp (serverBuildPath config) mode)) w7
                              in Inr (config, mode, port, w8\<lparr>server := None\<rparr>)))))"

text \<open>The callbacks that \<^verbatim>\<open>dev\<close> hands to \<^verbatim>\<open>watch\<close> (lines 279-301).\<close>

definition dev_callbacks :: "platform \<Rightarrow> nat \<Rightarrow> WatchCallbacks" where
  "dev_callbacks plat port =
     \<lparr>onRebuildStart = None, onInitialBuild = Some (dev_onInitialBuild plat port)\<rparr>"

text \<open>The \<^verbatim>\<open>finally\<close> block, line 303: \<^verbatim>\<open>server!?.close()\<close> closes a server that is there.\<close>

definition dev_finally :: "world \<Rightarrow> world" where
  "dev_finally w = (case server w of None \<Rightarrow> w | Some handle \<Rightarrow> emit ServerClose w)"

text \<open>
  \<^verbatim>\<open>dev\<close>: the \<^verbatim>\<open>finally\<close> block runs when \<^verbatim>\<open>watch\<close> returns or throws, not when
  the process has exited.
\<close>

definition dev ::
  "platform \<Rightarrow> path \<Rightarrow> string option \<Rightarrow> session \<Rightarrow> world \<Rightarrow> (error \<times> world) + world" where
  "dev plat remixRoot modeArg run w =
     (case dev_prepare plat remixRoot modeArg w of
        Inl ew \<Rightarrow> Inl ew
      | Inr (config, mode, port, w1) \<Rightarrow>
          (case watch plat (Inr config) (Some mode) (Some (dev_callbacks plat port)) run w1 of
             Inl (e, w2) \<Rightarrow>
               (case e of
                  ProcessExit code \<Rightarrow> Inl (e, w2)
                | _ \<Rightarrow> Inl (e, dev_finally w2))
           | Inr w2 \<Rightarrow> Inr (dev_finally w2)))"

subsection \<open>Serving a request (lines 268-274)\<close>

text \<open>
  The express application runs its middlewares in the order of the \<^verbatim>\<open>app.use\<close>
  calls; \<open>app_stack\<close> reads them off a trace, from the last call of
  \<^verbatim>\<open>express()\<close> on. The first one purges the module cache and calls \<^verbatim>\<open>next()\<close>; the second is the
  handler made by \<^verbatim>\<open>createApp\<close> of \<^verbatim>\<open>@remix-run/serve\<close>, here the parameter
  \<open>handler\<close>, which answers from the cache it finds and may load modules into it.
\<close>

fun app_stack_from :: "middleware list \<Rightarrow> effect list \<Rightarrow> middleware list" where
  "app_stack_from stack [] = stack"
| "app_stack_from stack (Express # es) = app_stack_from [] es"
| "app_stack_from stack (AppUse m # es) = app_stack_from (stack @ [m]) es"
| "app_stack_from stack (e # es) = app_stack_from stack es"

definition app_stack :: "effect list \<Rightarrow> middleware list" where
  "app_stack es = app_stack_from [] es"

fun dispatch ::
  "(path \<Rightarrow> string \<Rightarrow> 'm require_cache \<Rightarrow> 'q \<Rightarrow> 'm require_cache \<times> 'r) \<Rightarrow> middleware list
     \<Rightarrow> 'm require_cache \<Rightarrow> 'q \<Rightarrow> 'm require_cache \<times> 'r option" where
  "dispatch handler [] cache request = (cache, None)"
| "dispatch handler (PurgeMiddleware buildPath # rest) cache request =
     dispatch handler rest (purgeAppRequireCache buildPath cache) request"
| "dispatch handler (CreateApp buildPath mode # rest) cache request =
     (case handler buildPath mode cache request of
        (cache', response) \<Rightarrow> (cache', Some response))"

subsection \<open>What is read off a trace\<close>

text \<open>The hooks among the ticks, in order.\<close>

fun hooks_of :: "tick list \<Rightarrow> hook list" where
  "hooks_of [] = []"
| "hooks_of (Hook h # ts) = h # hooks_of ts"
| "hooks_of (t # ts) = hooks_of ts"

fun is_LOG :: "broadcast_event \<Rightarrow> bool" where
  "is_LOG (LOG message) = True"
| "is_LOG RELOAD = False"

text \<open>The line that \<^verbatim>\<open>onRebuildFinish\<close> logs: the disc, a space, \<^verbatim>\<open>Rebuilt in\<close> and a duration.\<close>

fun is_rebuilt_log :: "broadcast_event \<Rightarrow> bool" where
  "is_rebuilt_log (LOG message) = prefix (disc @ '' Rebuilt in '') message"
| "is_rebuilt_log RELOAD = False"

text \<open>
  A sequence of published events in which every \<^verbatim>\<open>RELOAD\<close> comes directly after a
  \<^verbatim>\<open>Rebuilt in\<close> line; \<open>preceded prev es\<close> reads \<open>es\<close> with the event before it.
\<close>

fun preceded :: "broadcast_event \<Rightarrow> broadcast_event list \<Rightarrow> bool" where
  "preceded prev [] = True"
| "preceded prev (e # es) = ((e = RELOAD \<longrightarrow> is_rebuilt_log prev) \<and> preceded e es)"

definition reload_after_rebuilt :: "broadcast_event list \<Rightarrow> bool" where
  "reload_after_rebuilt es = (case es of [] \<Rightarrow> True | e # es' \<Rightarrow> e \<noteq> RELOAD \<and> preceded e es')"

fun is_RebuildFinish :: "hook \<Rightarrow> bool" where
  "is_RebuildFinish (RebuildFinish now) = True"
| "is_RebuildFinish h = False"

text \<open>The calls of \<^verbatim>\<open>app.listen\<close> in a trace.\<close>

fun is_listen :: "effect \<Rightarrow> bool" where
  "is_listen (AppListen port host) = True"
| "is_listen e = False"

definition listens :: "effect list \<Rightarrow> effect list" where
  "listens es = filter is_listen es"

text \<open>The world in which a command ended, whether it returned, threw or left the process.\<close>

fun final_world :: "(error \<times> world) + world \<Rightarrow> world" where
  "final_world (Inl (e, w)) = w"
| "final_world (Inr w) = w"

subsection \<open>Example values\<close>

text \<open>
  A project at \<^verbatim>\<open>/app\<close> with the built-in server, a platform that answers for it, and
  a world in which the project has been built. The theorems below are instantiated with
  them.
\<close>

definition example_config :: RemixConfig where
  "example_config =
     \<lparr>rootDirectory = ''/app'',
      assetsBuildDirectory = ''/app/public/build'',
      serverBuildPath = ''/app/build/index.js'',
      devServerPort = 8002,
      devServerBroadcastDelay = 50,
      serverEntryPoint = None\<rparr>"

definition example_json :: "broadcast_event \<Rightarrow> string" where
  "example_json event =
     (case event of
        LOG message \<Rightarrow>
          ''{'' @ [CHR 0x22] @ ''type'' @ [CHR 0x22] @ '':'' @ [CHR 0x22] @ ''LOG'' @ [CHR 0x22] @
          '','' @ [CHR 0x22] @ ''message'' @ [CHR 0x22] @ '':'' @ [CHR 0x22] @ message @
          [CHR 0x22] @ ''}''
      | RELOAD \<Rightarrow>
          ''{'' @ [CHR 0x22] @ ''type'' @ [CHR 0x22] @ '':'' @ [CHR 0x22] @ ''RELOAD'' @
          [CHR 0x22] @ ''}'')"

definition example_platform :: platform where
  "example_platform =
     \<lparr>isBuildMode = (\<lambda>m. m = ''development'' \<or> m = ''production'' \<or> m = ''test''),
      prettyMs = (\<lambda>ms. if ms = 120 then ''120ms'' else ''1s''),
      path_relative = (\<lambda>from to. drop (Suc (length from)) to),
      cwd = ''/app'',
      JSON_stringify = example_json,
      readConfig = (\<lambda>root. Inr example_config),
      serve_installed = True,
      getPort = Inr 3000,
      env_HOST = None,
      lan_address = None,
      port_string = (\<lambda>port. ''3000''),
      compiler_build = (\<lambda>config mode sourcemap files. Inr files)\<rparr>"

text \<open>The same platform for a project whose configuration names a server entry point.\<close>

definition custom_server_platform :: platform where
  "custom_server_platform =
     example_platform
       \<lparr>readConfig := (\<lambda>root. Inr (example_config\<lparr>serverEntryPoint := Some ''/app/server.js''\<rparr>))\<rparr>"

definition example_world :: world where
  "example_world =
     \<lparr>trace = [],
      files = [[] \<mapsto> Directory,
               [''app''] \<mapsto> Directory,
               [''app'', ''public''] \<mapsto> Directory,
               [''app'', ''public'', ''build''] \<mapsto> Directory,
               [''app'', ''public'', ''build'', ''entry.js''] \<mapsto> File,
               [''app'', ''build''] \<mapsto> Directory,
               [''app'', ''build'', ''index.js''] \<mapsto> File],
      server = None\<rparr>"

definition example_closure :: watch_closure where
  "example_closure = \<lparr>start = 0, clients = [], timers = [], published = []\<rparr>"

definition example_session :: session where
  "example_session =
     \<lparr>now_start = 0,
      initial_ticks = [Hook InitialBuild],
      watch_rejection = None,
      now_built = 120,
      later_ticks =
        [Hook (FileChanged ''/app/routes/index.tsx''), Hook (RebuildStart 1000), Timeout,
         Hook (RebuildFinish 1120)],
      shutdown = Signal 2\<rparr>"

text \<open>
  The events published by a call of \<^verbatim>\<open>watch\<close> that has come to wait for
  \<^verbatim>\<open>compiler.watch\<close>, or for the exit hook; \<open>None\<close> when the call has thrown.
\<close>

definition published_until_resolved ::
  "platform \<Rightarrow> path + RemixConfig \<Rightarrow> string option \<Rightarrow> WatchCallbacks option \<Rightarrow> int \<Rightarrow> tick list
     \<Rightarrow> world \<Rightarrow> broadcast_event list option" where
  "published_until_resolved plat remixRootOrConfig modeArg callbacks now ticks w =
     (case watch_until_resolved plat remixRootOrConfig modeArg callbacks now ticks w of
        Inl ew \<Rightarrow> None
      | Inr (config, c, w') \<Rightarrow> Some (published c))"

definition published_until_exit ::
  "platform \<Rightarrow> path + RemixConfig \<Rightarrow> string option \<Rightarrow> WatchCallbacks option \<Rightarrow> session
     \<Rightarrow> world \<Rightarrow> broadcast_event list option" where
  "published_until_exit plat remixRootOrConfig modeArg callbacks run w =
     (case watch_until_exit plat remixRootOrConfig modeArg callbacks run w of
        Inl ew \<Rightarrow> None
      | Inr (config, c, w') \<Rightarrow> Some (published c))"

text \<open>
  The world after \<^verbatim>\<open>dev\<close> has prepared the application in the example world, after it
  has opened the watcher, and after the initial build has bound the listener; a module
  cache with the server build and one module of a dependency in it; a handler that
  answers with the file names it finds in the cache.
\<close>

definition example_prepared_world :: world where
  "example_prepared_world =
     example_world
       \<lparr>trace := [RequireServe, ReadConfig ''/app'', LoadEnv ''/app'', GetPort, Express,
                  AppDisable ''x-powered-by'', AppUse (PurgeMiddleware ''/app/build/index.js''),
                  AppUse (CreateApp ''/app/build/index.js'' ''development'')]\<rparr>"

definition example_watching_world :: world where
  "example_watching_world =
     example_world
       \<lparr>trace := trace example_prepared_world @
                 [ConsoleLog ''Watching Remix app in development mode...'',
                  NewWebSocketServer 8002, CompilerWatch ''development'']\<rparr>"

definition example_serving_world :: world where
  "example_serving_world =
     example_world
       \<lparr>trace := trace example_watching_world @
                 [AppListen 3000 None,
                  ConsoleLog ''Remix App Server started at http://localhost:3000''],
        server := Some (3000, None)\<rparr>"

definition example_cache :: "nat require_cache" where
  "example_cache = [(''/app/build/index.js'', 1), (''/app/node_modules/react/index.js'', 2)]"

definition example_handler ::
  "path \<Rightarrow> string \<Rightarrow> nat require_cache \<Rightarrow> unit \<Rightarrow> nat require_cache \<times> path list" where
  "example_handler buildPath mode cache request = (cache, map fst cache)"

text \<open>
  The world of a call of \<^verbatim>\<open>dev\<close> that has come, inside \<^verbatim>\<open>watch\<close>, to wait for
  \<^verbatim>\<open>compiler.watch\<close>, or for the exit hook.
\<close>

definition dev_until_resolved ::
  "platform \<Rightarrow> path \<Rightarrow> string option \<Rightarrow> int \<Rightarrow> tick list \<Rightarrow> world \<Rightarrow> (error \<times> world) + world" where
  "dev_until_resolved plat remixRoot modeArg now ticks w =
     (case dev_prepare plat remixRoot modeArg w of
        Inl ew \<Rightarrow> Inl ew
      | Inr (config, mode, port, w1) \<Rightarrow>
          (case watch_until_resolved plat (Inr config) (Some mode) (Some (dev_callbacks plat port))
                  now ticks w1 of
             Inl ew \<Rightarrow> Inl ew
           | Inr (config', c, w2) \<Rightarrow> Inr w2))"

definition dev_until_exit ::
  "platform \<Rightarrow> path \<Rightarrow> string option \<Rightarrow> session \<Rightarrow> world \<Rightarrow> (error \<times> world) + world" where
  "dev_until_exit plat remixRoot modeArg run w =
     (case dev_prepare plat remixRoot modeArg w of
        Inl ew \<Rightarrow> Inl ew
      | Inr (config, mode, port, w1) \<Rightarrow>
          (case watch_until_exit plat (Inr config) (Some mode) (Some (dev_callbacks plat port))
                  run w1 of
             Inl ew \<Rightarrow> Inl ew
           | Inr (config', c, w2) \<Rightarrow> Inr w2))"

text \<open>
  A session in which the initial build hook does not fire, and one in which
  \<^verbatim>\<open>compiler.watch\<close> rejects before the initial build is done.
\<close>

definition example_quiet_session :: session where
  "example_quiet_session =
     \<lparr>now_start = 0, initial_ticks = [Hook (FileChanged ''/app/routes/index.tsx'')],
      watch_rejection = None, now_built = 120, later_ticks = [Hook (RebuildStart 1000)],
      shutdown = Signal 2\<rparr>"

definition example_failing_session :: session where
  "example_failing_session =
     \<lparr>now_start = 0, initial_ticks = [], watch_rejection = Some (Error ''watch failed''),
      now_built = 120, later_ticks = [], shutdown = Signal 2\<rparr>"

text \<open>
  Following the words of the spec: a key is rooted under the build path when it names the
  build path itself or something inside it, as paths.
\<close>

definition rooted_under :: "path \<Rightarrow> path \<Rightarrow> bool" where
  "rooted_under buildPath key =
     prefix (walk [] (split_segments [] buildPath)) (walk [] (split_segments [] key))"

section \<open>Properties\<close>

subsection \<open>The purge as a filter, and deliveries\<close>

lemma purge_keys_filter:
  "purge_keys buildPath keys cache =
     filter (\<lambda>entry. \<not> (fst entry \<in> set keys \<and> startsWith (fst entry) buildPath)) cache"
proof (induction keys arbitrary: cache)
  case Nil
  then show ?case by simp
next
  case (Cons key keys)
  show ?case
  proof (cases "startsWith key buildPath")
    case True
    have "filter (\<lambda>entry. \<not> (fst entry \<in> set keys \<and> startsWith (fst entry) buildPath))
            (delete_key key cache) =
          filter (\<lambda>entry. \<not> (fst entry \<in> set (key # keys) \<and> startsWith (fst entry) buildPath)) cache"
      unfolding delete_key_def filter_filter
      by (rule filter_cong) (auto simp: True)
    with True show ?thesis by (simp add: Cons.IH)
  next
    case False
    have "filter (\<lambda>entry. \<not> (fst entry \<in> set keys \<and> startsWith (fst entry) buildPath)) cache =
          filter (\<lambda>entry. \<not> (fst entry \<in> set (key # keys) \<and> startsWith (fst entry) buildPath)) cache"
      by (rule filter_cong) (auto simp: False)
    with False show ?thesis by (simp add: Cons.IH)
  qed
qed

lemma purge_filter:
  "purgeAppRequireCache buildPath cache = filter (\<lambda>entry. \<not> startsWith (fst entry) buildPath) cache"
  unfolding purgeAppRequireCache_def purge_keys_filter
  by (rule filter_cong) auto

lemma deliver_map:
  "deliver plat event cls =
     Inr (map (\<lambda>cl. if readyState cl = OPEN then cl\<lparr>sent := sent cl @ [JSON_stringify plat event]\<rparr> else cl) cls)"
  by (induction cls) (simp_all add: ws_send_def)

lemma timer_fires_Inr: "\<exists>c'. timer_fires plat c = Inr c'"
  by (simp add: timer_fires_def deliver_map split: list.splits prod.splits)

lemma watch_tick_Inr: "\<exists>cw'. watch_tick plat config cbs t cw = Inr cw'"
proof (cases t)
  case Timeout
  obtain c' where "timer_fires plat (fst cw) = Inr c'" using timer_fires_Inr by blast
  with Timeout show ?thesis by simp
qed simp_all

lemma watch_ticks_Inr: "\<exists>cw'. watch_ticks plat config cbs ts cw = Inr cw'"
proof (induction ts arbitrary: cw)
  case Nil
  then show ?case by simp
next
  case (Cons t ts)
  obtain cw1 where "watch_tick plat config cbs t cw = Inr cw1" using watch_tick_Inr by blast
  with Cons.IH [of cw1] show ?case by simp
qed

subsection \<open>Published events\<close>

lemma published_watch_log:
  "published (fst (watch_log config m cw)) = published (fst cw) @ [LOG (disc @ '' '' @ m)]"
  by (simp add: watch_log_def watch_broadcast_def Let_def)

lemma start_watch_log: "start (fst (watch_log config m cw)) = start (fst cw)"
  by (simp add: watch_log_def watch_broadcast_def Let_def)

lemma snd_watch_log: "snd (watch_log config m cw) = emit (ConsoleLog (disc @ '' '' @ m)) (snd cw)"
  by (simp add: watch_log_def Let_def)

lemma published_watch_hook:
  "published (fst (watch_hook plat config cbs h (c, w))) =
     published c @
       (case h of
          InitialBuild \<Rightarrow> []
        | RebuildStart now \<Rightarrow> [LOG (disc @ '' Rebuilding...'')]
        | RebuildFinish now \<Rightarrow> [LOG (disc @ '' Rebuilt in '' @ prettyMs plat (now - start c)), RELOAD]
        | FileCreated file \<Rightarrow> [LOG (disc @ '' File created: '' @ path_relative plat (cwd plat) file)]
        | FileChanged file \<Rightarrow> [LOG (disc @ '' File changed: '' @ path_relative plat (cwd plat) file)]
        | FileDeleted file \<Rightarrow> [LOG (disc @ '' File deleted: '' @ path_relative plat (cwd plat) file)])"
  by (cases h) (simp_all add: published_watch_log watch_broadcast_def Let_def)

lemma published_timer_fires: "timer_fires plat c = Inr c' \<Longrightarrow> published c' = published c"
  by (auto simp: timer_fires_def deliver_map split: list.splits prod.splits)

lemma published_watch_tick:
  "watch_tick plat config cbs t (c, w) = Inr (c', w') \<Longrightarrow>
     published c' = published c @
       (case t of Hook h \<Rightarrow> drop (length (published c)) (published (fst (watch_hook plat config cbs h (c, w))))
        | _ \<Rightarrow> [])"
proof (cases t)
  case (Hook h)
  assume "watch_tick plat config cbs t (c, w) = Inr (c', w')"
  with Hook have "watch_hook plat config cbs h (c, w) = (c', w')" by simp
  then have "published c' = published (fst (watch_hook plat config cbs h (c, w)))" by simp
  with Hook show ?thesis by (simp add: published_watch_hook)
next
  case Timeout
  assume "watch_tick plat config cbs t (c, w) = Inr (c', w')"
  with Timeout show ?thesis by (auto split: sum.splits dest: published_timer_fires)
next
  case (Network f)
  assume "watch_tick plat config cbs t (c, w) = Inr (c', w')"
  with Network show ?thesis by auto
qed

lemma preceded_snoc_LOG: "preceded prev (es @ [LOG m]) = preceded prev es"
  by (induction es arbitrary: prev) simp_all

lemma preceded_snoc_pair:
  "preceded prev (es @ [LOG m, RELOAD]) = (preceded prev es \<and> is_rebuilt_log (LOG m))"
  by (induction es arbitrary: prev) auto

lemma preceded_nth:
  "preceded prev es \<Longrightarrow> i < length es \<Longrightarrow> es ! i = RELOAD \<Longrightarrow> is_rebuilt_log ((prev # es) ! i)"
proof (induction es arbitrary: prev i)
  case Nil
  then show ?case by simp
next
  case (Cons e es)
  show ?case
  proof (cases i)
    case 0
    with Cons.prems show ?thesis by simp
  next
    case (Suc j)
    with Cons.prems have "preceded e es" "j < length es" "es ! j = RELOAD" by simp_all
    from Cons.IH [OF this] Suc show ?thesis by simp
  qed
qed

lemma reload_after_rebuilt_Nil [simp]: "reload_after_rebuilt []"
  by (simp add: reload_after_rebuilt_def)

lemma reload_after_rebuilt_snoc_LOG:
  "reload_after_rebuilt (es @ [LOG m]) = reload_after_rebuilt es"
  by (cases es) (simp_all add: reload_after_rebuilt_def preceded_snoc_LOG)

lemma reload_after_rebuilt_snoc_pair:
  "reload_after_rebuilt (es @ [LOG m, RELOAD]) = (reload_after_rebuilt es \<and> is_rebuilt_log (LOG m))"
  by (cases es) (auto simp: reload_after_rebuilt_def preceded_snoc_pair)

lemma reload_after_rebuilt_nth:
  "reload_after_rebuilt es \<Longrightarrow> i < length es \<Longrightarrow> es ! i = RELOAD \<Longrightarrow>
     0 < i \<and> is_rebuilt_log (es ! (i - 1))"
proof (cases es)
  case Nil
  assume "i < length es"
  with Nil show ?thesis by simp
next
  case (Cons e es')
  assume ok: "reload_after_rebuilt es" and i: "i < length es" "es ! i = RELOAD"
  from ok Cons have e: "e \<noteq> RELOAD" "preceded e es'" by (simp_all add: reload_after_rebuilt_def)
  from i Cons e(1) obtain j where j: "i = Suc j" "j < length es'" "es' ! j = RELOAD"
    by (cases i) auto
  from preceded_nth [OF e(2) j(2) j(3)] Cons j(1) show ?thesis by simp
qed

lemma reload_after_rebuilt_watch_hook:
  "reload_after_rebuilt (published c) \<Longrightarrow>
     reload_after_rebuilt (published (fst (watch_hook plat config cbs h (c, w))))"
  by (cases h)
     (simp_all add: published_watch_hook reload_after_rebuilt_snoc_LOG reload_after_rebuilt_snoc_pair
        del: watch_hook.simps)

lemma watch_tick_cases:
  assumes "watch_tick plat config cbs t (c, w) = Inr (c', w')"
  obtains (hook) h where "t = Hook h" "watch_hook plat config cbs h (c, w) = (c', w')"
    | (quiet) "t \<noteq> Hook InitialBuild" "hooks_of [t] = []" "published c' = published c" "start c' = start c" "w' = w"
proof (cases t)
  case (Hook h)
  with assms show ?thesis by (auto intro: hook)
next
  case Timeout
  with assms have "published c' = published c" "start c' = start c" "w' = w"
    by (auto simp: timer_fires_def deliver_map split: sum.splits list.splits prod.splits)
  with Timeout show ?thesis by (auto intro: quiet)
next
  case (Network f)
  with assms show ?thesis by (auto intro: quiet)
qed

lemma reload_after_rebuilt_watch_ticks:
  "watch_ticks plat config cbs ts (c, w) = Inr (c', w') \<Longrightarrow> reload_after_rebuilt (published c) \<Longrightarrow>
     reload_after_rebuilt (published c')"
proof (induction ts arbitrary: c w)
  case Nil
  then show ?case by simp
next
  case (Cons t ts)
  from Cons.prems(1) obtain c1 w1 where
    step: "watch_tick plat config cbs t (c, w) = Inr (c1, w1)" and
    rest: "watch_ticks plat config cbs ts (c1, w1) = Inr (c', w')"
    by (auto split: sum.splits)
  from step have "reload_after_rebuilt (published c1)"
  proof (cases rule: watch_tick_cases)
    case (hook h)
    with reload_after_rebuilt_watch_hook [OF Cons.prems(2), of plat config cbs h w]
    show ?thesis by simp
  next
    case quiet
    with Cons.prems(2) show ?thesis by simp
  qed
  with Cons.IH [OF rest] show ?case .
qed

lemma hooks_of_Cons: "hooks_of (t # ts) = hooks_of [t] @ hooks_of ts"
  by (cases t) simp_all

lemma count_LOG_watch_hook:
  "length (filter is_LOG (published (fst (watch_hook plat config cbs h (c, w))))) =
     length (filter is_LOG (published c)) + (if h = InitialBuild then 0 else 1)"
  by (cases h) (simp_all add: published_watch_hook del: watch_hook.simps)

lemma count_RELOAD_watch_hook:
  "length (filter (\<lambda>e. \<not> is_LOG e) (published (fst (watch_hook plat config cbs h (c, w))))) =
     length (filter (\<lambda>e. \<not> is_LOG e) (published c)) + (if is_RebuildFinish h then 1 else 0)"
  by (cases h) (simp_all add: published_watch_hook del: watch_hook.simps)

lemma counts_watch_ticks:
  "watch_ticks plat config cbs ts (c, w) = Inr (c', w') \<Longrightarrow>
     length (filter is_LOG (published c')) =
       length (filter is_LOG (published c)) + length (filter (\<lambda>h. h \<noteq> InitialBuild) (hooks_of ts)) \<and>
     length (filter (\<lambda>e. \<not> is_LOG e) (published c')) =
       length (filter (\<lambda>e. \<not> is_LOG e) (published c)) + length (filter is_RebuildFinish (hooks_of ts))"
proof (induction ts arbitrary: c w)
  case Nil
  then show ?case by simp
next
  case (Cons t ts)
  from Cons.prems(1) obtain c1 w1 where
    step: "watch_tick plat config cbs t (c, w) = Inr (c1, w1)" and
    rest: "watch_ticks plat config cbs ts (c1, w1) = Inr (c', w')"
    by (auto split: sum.splits)
  from step have
    "length (filter is_LOG (published c1)) =
       length (filter is_LOG (published c)) + length (filter (\<lambda>h. h \<noteq> InitialBuild) (hooks_of [t])) \<and>
     length (filter (\<lambda>e. \<not> is_LOG e) (published c1)) =
       length (filter (\<lambda>e. \<not> is_LOG e) (published c)) + length (filter is_RebuildFinish (hooks_of [t]))"
  proof (cases rule: watch_tick_cases)
    case (hook h)
    with count_LOG_watch_hook [of plat config cbs h c w] count_RELOAD_watch_hook [of plat config cbs h c w]
    show ?thesis by simp
  next
    case quiet
    then show ?thesis by simp
  qed
  with Cons.IH [OF rest] show ?case
    by (simp add: hooks_of_Cons [of t ts])
qed

lemma file_changes_publish:
  "watch_ticks plat config cbs (map (\<lambda>file. Hook (FileChanged file)) fs) (c, w) = Inr (c', w') \<Longrightarrow>
     published c' =
       published c @ map (\<lambda>file. LOG (disc @ '' File changed: '' @ path_relative plat (cwd plat) file)) fs"
proof (induction fs arbitrary: c w)
  case Nil
  then show ?case by simp
next
  case (Cons f fs)
  obtain c1 w1 where h: "watch_hook plat config cbs (FileChanged f) (c, w) = (c1, w1)"
    by (cases "watch_hook plat config cbs (FileChanged f) (c, w)")
  with Cons.prems have "watch_ticks plat config cbs (map (\<lambda>file. Hook (FileChanged file)) fs) (c1, w1) = Inr (c', w')"
    by simp
  from Cons.IH [OF this] published_watch_hook [of plat config cbs "FileChanged f" c w] h
  show ?case by simp
qed

subsection \<open>The world through emit, hooks and ticks\<close>

lemma emit_simps [simp]:
  "trace (emit e w) = trace w @ [e]" "files (emit e w) = files w" "server (emit e w) = server w"
  by (simp_all add: emit_def)

lemma listens_append [simp]: "listens (xs @ ys) = listens xs @ listens ys"
  by (simp add: listens_def)

lemma listens_Nil [simp]: "listens [] = []"
  by (simp add: listens_def)

lemma listens_Cons [simp]: "listens (e # es) = (if is_listen e then e # listens es else listens es)"
  by (simp add: listens_def)

lemma dev_onListen_world [simp]:
  "server (dev_onListen plat port w) = server w"
  "files (dev_onListen plat port w) = files w"
  "listens (trace (dev_onListen plat port w)) = listens (trace w)"
  by (simp_all add: dev_onListen_def split: option.splits)

lemma dev_onInitialBuild_world:
  "server (dev_onInitialBuild plat port w) \<noteq> None"
  "listens (trace (dev_onInitialBuild plat port w)) =
     listens (trace w) @ [AppListen port (if truthy (env_HOST plat) then env_HOST plat else None)]"
  by (simp_all add: dev_onInitialBuild_def Let_def)

lemma dev_hook_quiet:
  "h \<noteq> InitialBuild \<Longrightarrow>
     server (snd (watch_hook plat config (dev_callbacks plat port) h (c, w))) = server w \<and>
     listens (trace (snd (watch_hook plat config (dev_callbacks plat port) h (c, w)))) = listens (trace w)"
  by (cases h) (simp_all add: snd_watch_log dev_callbacks_def Let_def)

lemma dev_hook_initial:
  "server (snd (watch_hook plat config (dev_callbacks plat port) InitialBuild (c, w))) \<noteq> None \<and>
   length (listens (trace (snd (watch_hook plat config (dev_callbacks plat port) InitialBuild (c, w))))) =
     Suc (length (listens (trace w)))"
  by (simp add: dev_callbacks_def dev_onInitialBuild_world)

lemma dev_ticks_quiet:
  "watch_ticks plat config (dev_callbacks plat port) ts (c, w) = Inr (c', w') \<Longrightarrow>
     InitialBuild \<notin> set (hooks_of ts) \<Longrightarrow>
     server w' = server w \<and> listens (trace w') = listens (trace w)"
proof (induction ts arbitrary: c w)
  case Nil
  then show ?case by simp
next
  case (Cons t ts)
  from Cons.prems(1) obtain c1 w1 where
    step: "watch_tick plat config (dev_callbacks plat port) t (c, w) = Inr (c1, w1)" and
    rest: "watch_ticks plat config (dev_callbacks plat port) ts (c1, w1) = Inr (c', w')"
    by (auto split: sum.splits)
  from Cons.prems(2) have no: "InitialBuild \<notin> set (hooks_of [t])" "InitialBuild \<notin> set (hooks_of ts)"
    by (simp_all add: hooks_of_Cons [of t ts])
  from step have "server w1 = server w \<and> listens (trace w1) = listens (trace w)"
  proof (cases rule: watch_tick_cases)
    case (hook h)
    with no(1) have "h \<noteq> InitialBuild" by simp
    from dev_hook_quiet [OF this, of plat config port c w] hook show ?thesis by simp
  next
    case quiet
    then show ?thesis by simp
  qed
  with Cons.IH [OF rest no(2)] show ?case by simp
qed

lemma dev_ticks_listens:
  "watch_ticks plat config (dev_callbacks plat port) ts (c, w) = Inr (c', w') \<Longrightarrow>
     length (listens (trace w')) =
       length (listens (trace w)) + length (filter (\<lambda>h. h = InitialBuild) (hooks_of ts))"
proof (induction ts arbitrary: c w)
  case Nil
  then show ?case by simp
next
  case (Cons t ts)
  from Cons.prems(1) obtain c1 w1 where
    step: "watch_tick plat config (dev_callbacks plat port) t (c, w) = Inr (c1, w1)" and
    rest: "watch_ticks plat config (dev_callbacks plat port) ts (c1, w1) = Inr (c', w')"
    by (auto split: sum.splits)
  from step have "length (listens (trace w1)) =
      length (listens (trace w)) + length (filter (\<lambda>h. h = InitialBuild) (hooks_of [t]))"
  proof (cases rule: watch_tick_cases)
    case (hook h)
    show ?thesis
    proof (cases "h = InitialBuild")
      case True
      with dev_hook_initial [of plat config port c w] hook show ?thesis by simp
    next
      case False
      from dev_hook_quiet [OF this, of plat config port c w] hook False show ?thesis by simp
    qed
  next
    case quiet
    then show ?thesis by simp
  qed
  with Cons.IH [OF rest] show ?case by (simp add: hooks_of_Cons [of t ts])
qed

subsection \<open>Opening and tearing down\<close>

lemma watch_open_Inr:
  assumes "watch_open plat remixRootOrConfig modeArg now w = Inr (config, mode, c, w1)"
  shows "published c = []" "start c = now" "server w1 = server w" "files w1 = files w"
    "listens (trace w1) = listens (trace w)" "mode = watch_mode plat modeArg"
  using assms
  by (auto simp: watch_open_def Let_def split: sum.splits)

lemma watch_open_config:
  "watch_open plat (Inr config) modeArg now w =
     Inr (config, watch_mode plat modeArg,
          \<lparr>start = now, clients = [], timers = [], published = []\<rparr>,
          w\<lparr>trace := trace w @ [ConsoleLog (''Watching Remix app in '' @ watch_mode plat modeArg @ '' mode...''),
                                NewWebSocketServer (devServerPort config),
                                CompilerWatch (watch_mode plat modeArg)]\<rparr>)"
  by (simp add: watch_open_def Let_def emit_def)

subsection \<open>Whole runs\<close>

lemma hooks_of_append: "hooks_of (ts @ us) = hooks_of ts @ hooks_of us"
  by (induction ts rule: hooks_of.induct) simp_all

lemma until_resolved_closure:
  assumes "watch_until_resolved plat remixRootOrConfig modeArg callbacks now ticks w = Inr (config, c, w')"
  shows "reload_after_rebuilt (published c)"
    and "length (filter is_LOG (published c)) = length (filter (\<lambda>h. h \<noteq> InitialBuild) (hooks_of ticks))"
    and "length (filter (\<lambda>e. \<not> is_LOG e) (published c)) = length (filter is_RebuildFinish (hooks_of ticks))"
proof -
  from assms obtain mode c0 w0 where
    opened: "watch_open plat remixRootOrConfig modeArg now w = Inr (config, mode, c0, w0)" and
    ticked: "watch_ticks plat config (given_callbacks callbacks) ticks (c0, w0) = Inr (c, w')"
    by (auto simp: watch_until_resolved_def split: sum.splits)
  from watch_open_Inr(1) [OF opened] have empty: "published c0 = []" .
  from reload_after_rebuilt_watch_ticks [OF ticked] empty
  show "reload_after_rebuilt (published c)" by simp
  from counts_watch_ticks [OF ticked] empty
  show "length (filter is_LOG (published c)) = length (filter (\<lambda>h. h \<noteq> InitialBuild) (hooks_of ticks))"
    and "length (filter (\<lambda>e. \<not> is_LOG e) (published c)) = length (filter is_RebuildFinish (hooks_of ticks))"
    by simp_all
qed

lemma until_exit_closure:
  assumes "watch_until_exit plat remixRootOrConfig modeArg callbacks run w = Inr (config, c, w')"
  shows "reload_after_rebuilt (published c)"
    and "length (filter is_LOG (published c)) =
           length (filter (\<lambda>h. h \<noteq> InitialBuild) (hooks_of (initial_ticks run @ later_ticks run)))"
    and "length (filter (\<lambda>e. \<not> is_LOG e) (published c)) =
           length (filter is_RebuildFinish (hooks_of (initial_ticks run @ later_ticks run)))"
proof -
  from assms obtain c2 w2 w3 where
    resolved: "watch_until_resolved plat remixRootOrConfig modeArg callbacks (now_start run)
                 (initial_ticks run) w = Inr (config, c2, w2)" and
    ticked: "watch_ticks plat config (given_callbacks callbacks) (later_ticks run) (c2, w3) = Inr (c, w')"
    by (auto simp: watch_until_exit_def Let_def split: sum.splits option.splits)
  from reload_after_rebuilt_watch_ticks [OF ticked] until_resolved_closure(1) [OF resolved]
  show "reload_after_rebuilt (published c)" by simp
  from counts_watch_ticks [OF ticked] until_resolved_closure(2,3) [OF resolved]
  show "length (filter is_LOG (published c)) =
           length (filter (\<lambda>h. h \<noteq> InitialBuild) (hooks_of (initial_ticks run @ later_ticks run)))"
    and "length (filter (\<lambda>e. \<not> is_LOG e) (published c)) =
           length (filter is_RebuildFinish (hooks_of (initial_ticks run @ later_ticks run)))"
    by (simp_all add: hooks_of_append)
qed

lemma published_until_resolved_Some:
  "published_until_resolved plat r m cb now ticks w = Some ps \<Longrightarrow>
     \<exists>config c w'. watch_until_resolved plat r m cb now ticks w = Inr (config, c, w') \<and> ps = published c"
  by (auto simp: published_until_resolved_def split: sum.splits)

lemma published_until_exit_Some:
  "published_until_exit plat r m cb run w = Some ps \<Longrightarrow>
     \<exists>config c w'. watch_until_exit plat r m cb run w = Inr (config, c, w') \<and> ps = published c"
  by (auto simp: published_until_exit_def split: sum.splits)

lemmas example_defs =
  example_platform_def example_config_def example_world_def example_closure_def example_session_def
  example_json_def custom_server_platform_def

lemmas run_defs =
  watch_until_exit_def watch_until_resolved_def watch_open_def watch_mode_def given_callbacks_def
  watch_log_def watch_broadcast_def timer_fires_def emit_def BuildMode_Development_def
  published_until_exit_def published_until_resolved_def

lemma app_stack_from_append:
  "app_stack_from stack (xs @ ys) = app_stack_from (app_stack_from stack xs) ys"
  by (induction stack xs rule: app_stack_from.induct) simp_all

lemma app_stack_snoc: "app_stack (es @ es') = app_stack_from (app_stack es) es'"
  by (simp add: app_stack_def app_stack_from_append)

lemma dev_onInitialBuild_stack:
  "app_stack (trace (dev_onInitialBuild plat port w)) = app_stack (trace w)"
  by (simp add: dev_onInitialBuild_def dev_onListen_def Let_def app_stack_snoc split: option.splits)

lemma dev_hook_stack:
  "app_stack (trace (snd (watch_hook plat config (dev_callbacks plat port) h (c, w)))) = app_stack (trace w)"
  by (cases h) (simp_all add: snd_watch_log dev_callbacks_def Let_def app_stack_snoc dev_onInitialBuild_stack)

lemma dev_ticks_stack:
  "watch_ticks plat config (dev_callbacks plat port) ts (c, w) = Inr (c', w') \<Longrightarrow>
     app_stack (trace w') = app_stack (trace w)"
proof (induction ts arbitrary: c w)
  case Nil
  then show ?case by simp
next
  case (Cons t ts)
  from Cons.prems(1) obtain c1 w1 where
    step: "watch_tick plat config (dev_callbacks plat port) t (c, w) = Inr (c1, w1)" and
    rest: "watch_ticks plat config (dev_callbacks plat port) ts (c1, w1) = Inr (c', w')"
    by (auto split: sum.splits)
  from step have "app_stack (trace w1) = app_stack (trace w)"
  proof (cases rule: watch_tick_cases)
    case (hook h)
    with dev_hook_stack [of plat config port h c w] show ?thesis by simp
  next
    case quiet
    then show ?thesis by simp
  qed
  with Cons.IH [OF rest] show ?case by simp
qed

lemma dev_prepare_Inr:
  assumes "dev_prepare plat remixRoot modeArg w = Inr (config, mode, port, w1)"
  shows "server w1 = None" "files w1 = files w" "mode = dev_mode plat modeArg"
    "readConfig plat remixRoot = Inr config" "\<not> truthy (serverEntryPoint config)"
    "trace w1 = trace w @ [RequireServe, ReadConfig remixRoot, LoadEnv (rootDirectory config), GetPort,
        Express, AppDisable ''x-powered-by'', AppUse (PurgeMiddleware (serverBuildPath config)),
        AppUse (CreateApp (serverBuildPath config) mode)]"
  using assms
  by (auto simp: dev_prepare_def Let_def split: sum.splits if_splits)

lemma dev_prepare_stack:
  assumes "dev_prepare plat remixRoot modeArg w = Inr (config, mode, port, w1)"
  shows "app_stack (trace w1) = [PurgeMiddleware (serverBuildPath config), CreateApp (serverBuildPath config) mode]"
  by (simp add: dev_prepare_Inr(6) [OF assms] app_stack_def app_stack_from_append)

lemma dev_until_resolved_Inr:
  assumes "dev_until_resolved plat remixRoot modeArg now ticks w = Inr w2"
  obtains config port c0 c w1 where
    "dev_prepare plat remixRoot modeArg w = Inr (config, dev_mode plat modeArg, port, w1)"
    "readConfig plat remixRoot = Inr config"
    "watch_ticks plat config (dev_callbacks plat port) ticks
       (c0, w1\<lparr>trace := trace w1 @
               [ConsoleLog (''Watching Remix app in '' @ watch_mode plat (Some (dev_mode plat modeArg)) @ '' mode...''),
                NewWebSocketServer (devServerPort config),
                CompilerWatch (watch_mode plat (Some (dev_mode plat modeArg)))]\<rparr>) = Inr (c, w2)"
proof -
  from assms obtain config mode port w1 config' c where
    prepared: "dev_prepare plat remixRoot modeArg w = Inr (config, mode, port, w1)" and
    resolved: "watch_until_resolved plat (Inr config) (Some mode) (Some (dev_callbacks plat port))
                 now ticks w1 = Inr (config', c, w2)"
    by (auto simp: dev_until_resolved_def split: sum.splits)
  from dev_prepare_Inr(3) [OF prepared] have mode: "mode = dev_mode plat modeArg" .
  from resolved have
    "watch_ticks plat config (dev_callbacks plat port) ticks
       (\<lparr>start = now, clients = [], timers = [], published = []\<rparr>,
        w1\<lparr>trace := trace w1 @
               [ConsoleLog (''Watching Remix app in '' @ watch_mode plat (Some mode) @ '' mode...''),
                NewWebSocketServer (devServerPort config),
                CompilerWatch (watch_mode plat (Some mode))]\<rparr>) = Inr (c, w2)"
    by (auto simp: watch_until_resolved_def watch_open_config given_callbacks_def split: sum.splits)
  with prepared dev_prepare_Inr(4) [OF prepared] mode that show ?thesis by blast
qed

lemma watch_until_resolved_config:
  "watch_until_resolved plat (Inr config) modeArg callbacks now ticks w = Inr (config', c, w') \<Longrightarrow>
     config' = config"
  by (auto simp: watch_until_resolved_def watch_open_config split: sum.splits)

lemma dev_until_exit_Inr:
  assumes "dev_until_exit plat remixRoot modeArg run w = Inr w2"
  obtains w1 c1 c config port where
    "dev_until_resolved plat remixRoot modeArg (now_start run) (initial_ticks run) w = Inr w1"
    "readConfig plat remixRoot = Inr config"
    "watch_ticks plat config (dev_callbacks plat port) (later_ticks run)
         (c1, emit ExitHook (emit (ConsoleLog (disc @ '' Built in '' @
                               prettyMs plat (now_built run - start c1))) w1)) = Inr (c, w2)"
proof -
  from assms obtain config mode port w0 config' c where
    prepared: "dev_prepare plat remixRoot modeArg w = Inr (config, mode, port, w0)" and
    exit: "watch_until_exit plat (Inr config) (Some mode) (Some (dev_callbacks plat port)) run w0 =
             Inr (config', c, w2)"
    by (auto simp: dev_until_exit_def split: sum.splits)
  from exit obtain config'' c1 w1 where
    resolved: "watch_until_resolved plat (Inr config) (Some mode) (Some (dev_callbacks plat port))
                 (now_start run) (initial_ticks run) w0 = Inr (config'', c1, w1)" and
    later: "watch_ticks plat config'' (dev_callbacks plat port) (later_ticks run)
         (c1, emit ExitHook (emit (ConsoleLog (disc @ '' Built in '' @
                               prettyMs plat (now_built run - start c1))) w1)) = Inr (c, w2)"
    by (auto simp: watch_until_exit_def given_callbacks_def Let_def split: sum.splits option.splits)
  from watch_until_resolved_config [OF resolved] have same: "config'' = config" .
  from prepared resolved have "dev_until_resolved plat remixRoot modeArg (now_start run) (initial_ticks run) w = Inr w1"
    by (simp add: dev_until_resolved_def)
  with dev_prepare_Inr(4) [OF prepared] later same that show ?thesis by blast
qed

lemma dev_until_resolved_stack:
  assumes "dev_until_resolved plat remixRoot modeArg now ticks w = Inr w2"
    and "readConfig plat remixRoot = Inr config"
  shows "app_stack (trace w2) =
    [PurgeMiddleware (serverBuildPath config), CreateApp (serverBuildPath config) (dev_mode plat modeArg)]"
  using assms(1)
proof (cases rule: dev_until_resolved_Inr)
  case (1 config' port c0 c w1)
  with assms(2) have "config' = config" by simp
  with dev_ticks_stack [OF 1(3)] dev_prepare_stack [OF 1(1)] show ?thesis by (simp add: app_stack_snoc)
qed

lemma dev_until_exit_stack:
  assumes "dev_until_exit plat remixRoot modeArg run w = Inr w2"
    and "readConfig plat remixRoot = Inr config"
  shows "app_stack (trace w2) =
    [PurgeMiddleware (serverBuildPath config), CreateApp (serverBuildPath config) (dev_mode plat modeArg)]"
  using assms(1)
proof (cases rule: dev_until_exit_Inr)
  case (1 w1 c1 c config' port)
  from dev_ticks_stack [OF 1(3)] dev_until_resolved_stack [OF 1(1) assms(2)]
  show ?thesis by (simp add: app_stack_snoc)
qed

lemmas example_world_defs =
  example_prepared_world_def example_watching_world_def example_serving_world_def
  example_cache_def example_handler_def

lemmas dev_defs =
  dev_until_resolved_def dev_until_exit_def dev_prepare_def dev_mode_def dev_callbacks_def
  dev_onInitialBuild_def dev_onListen_def

lemma watch_ticks_file_changes:
  "\<exists>c' w'. watch_ticks plat config cbs (map (\<lambda>file. Hook (FileChanged file)) fs) (c, w) = Inr (c', w') \<and>
     published c' =
       published c @ map (\<lambda>file. LOG (disc @ '' File changed: '' @ path_relative plat (cwd plat) file)) fs"
proof -
  obtain cw' where "watch_ticks plat config cbs (map (\<lambda>file. Hook (FileChanged file)) fs) (c, w) = Inr cw'"
    using watch_ticks_Inr by blast
  then have "watch_ticks plat config cbs (map (\<lambda>file. Hook (FileChanged file)) fs) (c, w) = Inr (fst cw', snd cw')"
    by simp
  with file_changes_publish [OF this] show ?thesis by blast
qed

lemma dev_until_resolved_listens:
  assumes "dev_until_resolved plat remixRoot modeArg now ticks w = Inr w2"
  shows "length (listens (trace w2)) =
           length (listens (trace w)) + length (filter (\<lambda>h. h = InitialBuild) (hooks_of ticks))"
    and "InitialBuild \<notin> set (hooks_of ticks) \<Longrightarrow> server w2 = None \<and> listens (trace w2) = listens (trace w)"
proof -
  from assms obtain config port c0 c w1 where
    prepared: "dev_prepare plat remixRoot modeArg w = Inr (config, dev_mode plat modeArg, port, w1)" and
    ticked: "watch_ticks plat config (dev_callbacks plat port) ticks
       (c0, w1\<lparr>trace := trace w1 @
               [ConsoleLog (''Watching Remix app in '' @ watch_mode plat (Some (dev_mode plat modeArg)) @ '' mode...''),
                NewWebSocketServer (devServerPort config),
                CompilerWatch (watch_mode plat (Some (dev_mode plat modeArg)))]\<rparr>) = Inr (c, w2)"
    by (rule dev_until_resolved_Inr)
  note facts = dev_prepare_Inr [OF prepared]
  from dev_ticks_listens [OF ticked] facts(6)
  show "length (listens (trace w2)) =
           length (listens (trace w)) + length (filter (\<lambda>h. h = InitialBuild) (hooks_of ticks))"
    by simp
  show "server w2 = None \<and> listens (trace w2) = listens (trace w)"
    if "InitialBuild \<notin> set (hooks_of ticks)"
    using dev_ticks_quiet [OF ticked that] facts(1,6) by simp
qed

lemma dev_until_exit_listens:
  assumes "dev_until_exit plat remixRoot modeArg run w = Inr w2"
  shows "length (listens (trace w2)) =
           length (listens (trace w)) +
           length (filter (\<lambda>h. h = InitialBuild) (hooks_of (initial_ticks run @ later_ticks run)))"
    and "InitialBuild \<notin> set (hooks_of (initial_ticks run @ later_ticks run)) \<Longrightarrow>
           server w2 = None \<and> listens (trace w2) = listens (trace w)"
proof -
  from assms obtain w1 c1 c config port where
    resolved: "dev_until_resolved plat remixRoot modeArg (now_start run) (initial_ticks run) w = Inr w1" and
    ticked: "watch_ticks plat config (dev_callbacks plat port) (later_ticks run)
         (c1, emit ExitHook (emit (ConsoleLog (disc @ '' Built in '' @
                               prettyMs plat (now_built run - start c1))) w1)) = Inr (c, w2)"
    by (rule dev_until_exit_Inr)
  from dev_ticks_listens [OF ticked] dev_until_resolved_listens(1) [OF resolved]
  show "length (listens (trace w2)) =
           length (listens (trace w)) +
           length (filter (\<lambda>h. h = InitialBuild) (hooks_of (initial_ticks run @ later_ticks run)))"
    by (simp add: hooks_of_append)
  show "server w2 = None \<and> listens (trace w2) = listens (trace w)"
    if "InitialBuild \<notin> set (hooks_of (initial_ticks run @ later_ticks run))"
  proof -
    from that have no: "InitialBuild \<notin> set (hooks_of (initial_ticks run))"
      "InitialBuild \<notin> set (hooks_of (later_ticks run))"
      by (simp_all add: hooks_of_append)
    from dev_ticks_quiet [OF ticked no(2)] dev_until_resolved_listens(2) [OF resolved no(1)]
    show ?thesis by simp
  qed
qed

lemma dev_watch_ends:
  assumes "dev_prepare plat remixRoot modeArg w = Inr (config, mode, port, w1)"
  obtains (exited) c w2 where
      "watch_until_exit plat (Inr config) (Some mode) (Some (dev_callbacks plat port)) run w1 =
         Inr (config, c, w2)"
      "dev_until_exit plat remixRoot modeArg run w = Inr w2"
    | (rejected) e w2 where
      "watch_until_exit plat (Inr config) (Some mode) (Some (dev_callbacks plat port)) run w1 =
         Inl (e, w2)"
      "dev_until_resolved plat remixRoot modeArg (now_start run) (initial_ticks run) w = Inr w2"
proof -
  obtain c0 w0 where opened:
    "watch_open plat (Inr config) (Some mode) (now_start run) w1 =
       Inr (config, watch_mode plat (Some mode), c0, w0)"
    by (simp add: watch_open_config)
  obtain c2 w2 where t1:
    "watch_ticks plat config (given_callbacks (Some (dev_callbacks plat port))) (initial_ticks run) (c0, w0) =
       Inr (c2, w2)"
    using watch_ticks_Inr by (metis surj_pair)
  from opened t1 have resolved:
    "watch_until_resolved plat (Inr config) (Some mode) (Some (dev_callbacks plat port))
       (now_start run) (initial_ticks run) w1 = Inr (config, c2, w2)"
    by (simp add: watch_until_resolved_def)
  with assms have dev_resolved:
    "dev_until_resolved plat remixRoot modeArg (now_start run) (initial_ticks run) w = Inr w2"
    by (simp add: dev_until_resolved_def)
  show ?thesis
  proof (cases "watch_rejection run")
    case (Some e)
    with resolved have
      "watch_until_exit plat (Inr config) (Some mode) (Some (dev_callbacks plat port)) run w1 = Inl (e, w2)"
      by (simp add: watch_until_exit_def)
    from this dev_resolved show ?thesis by (rule rejected)
  next
    case None
    obtain c4 w4 where t2:
      "watch_ticks plat config (given_callbacks (Some (dev_callbacks plat port))) (later_ticks run)
         (c2, emit ExitHook (emit (ConsoleLog (disc @ '' Built in '' @
                                 prettyMs plat (now_built run - start c2))) w2)) = Inr (c4, w4)"
      using watch_ticks_Inr by (metis surj_pair)
    with resolved None have ended:
      "watch_until_exit plat (Inr config) (Some mode) (Some (dev_callbacks plat port)) run w1 =
         Inr (config, c4, w4)"
      by (simp add: watch_until_exit_def Let_def)
    with assms have "dev_until_exit plat remixRoot modeArg run w = Inr w4"
      by (simp add: dev_until_exit_def)
    with ended show ?thesis by (rule exited)
  qed
qed

lemma dev_finally_None: "server w = None \<Longrightarrow> dev_finally w = w"
  by (simp add: dev_finally_def)

lemma build_first_effect:
  "\<exists>rest. trace (final_world (build plat remixRoot modeArg sourcemap now0 now1 w)) =
     trace w @ LoggingLog (''Building Remix app in '' @ build_mode plat modeArg @ '' mode...'') # rest"
  by (auto simp: build_def Let_def emptyDirSync_def split: sum.splits)

lemma build_compiles_in_mode:
  "build plat remixRoot modeArg sourcemap now0 now1 w = Inr w' \<Longrightarrow>
     CompilerBuild (build_mode plat modeArg) sourcemap \<in> set (trace w')"
  by (auto simp: build_def Let_def emptyDirSync_def split: sum.splits if_splits)

section \<open>The claims\<close>

text \<open>
  C1. Every call of the rebuild-finish hook publishes the line \<^verbatim>\<open>Rebuilt in\<close> with the
  duration as a \<^verbatim>\<open>LOG\<close> event and then a \<^verbatim>\<open>RELOAD\<close> event, in that order. In the
  events published by a call of \<^verbatim>\<open>watch\<close>, at any moment of its run and whatever the
  compiler, the timers and the network do, every \<^verbatim>\<open>RELOAD\<close> comes directly after such
  a \<^verbatim>\<open>LOG\<close>.
\<close>

theorem rebuild_finish_publishes_log_then_reload:
  "published (fst (watch_hook plat config cbs (RebuildFinish now) (c, w))) =
     published c @ [LOG (disc @ '' Rebuilt in '' @ prettyMs plat (now - start c)), RELOAD]
   \<and> (published_until_resolved plat remixRootOrConfig modeArg callbacks t ticks w0 = Some ps \<and>
        i < length ps \<and> ps ! i = RELOAD \<longrightarrow> 0 < i \<and> is_rebuilt_log (ps ! (i - 1)))
   \<and> (published_until_exit plat remixRootOrConfig modeArg callbacks run w0 = Some ps' \<and>
        j < length ps' \<and> ps' ! j = RELOAD \<longrightarrow> 0 < j \<and> is_rebuilt_log (ps' ! (j - 1)))"
proof (intro conjI impI)
  show "published (fst (watch_hook plat config cbs (RebuildFinish now) (c, w))) =
     published c @ [LOG (disc @ '' Rebuilt in '' @ prettyMs plat (now - start c)), RELOAD]"
    by (simp add: published_watch_hook del: watch_hook.simps)
next
  assume a: "published_until_resolved plat remixRootOrConfig modeArg callbacks t ticks w0 = Some ps \<and>
        i < length ps \<and> ps ! i = RELOAD"
  with published_until_resolved_Some obtain config1 c1 w1 where
    "watch_until_resolved plat remixRootOrConfig modeArg callbacks t ticks w0 = Inr (config1, c1, w1)"
    "ps = published c1" by blast
  with until_resolved_closure(1) have "reload_after_rebuilt ps" by blast
  with a reload_after_rebuilt_nth [of ps i]
  show "0 < i" and "is_rebuilt_log (ps ! (i - 1))" by simp_all
next
  assume a: "published_until_exit plat remixRootOrConfig modeArg callbacks run w0 = Some ps' \<and>
        j < length ps' \<and> ps' ! j = RELOAD"
  with published_until_exit_Some obtain config2 c2 w2 where
    "watch_until_exit plat remixRootOrConfig modeArg callbacks run w0 = Inr (config2, c2, w2)"
    "ps' = published c2" by blast
  with until_exit_closure(1) have "reload_after_rebuilt ps'" by blast
  with a reload_after_rebuilt_nth [of ps' j]
  show "0 < j" and "is_rebuilt_log (ps' ! (j - 1))" by simp_all
qed

theorem rebuild_finish_publishes_log_then_reload_witness:
  "published (fst (watch_hook example_platform example_config (given_callbacks None) (RebuildFinish 120)
      (example_closure, example_world))) = [LOG (disc @ '' Rebuilt in 120ms''), RELOAD]
   \<and> published_until_resolved example_platform (Inr example_config) None None 0
        [Hook (RebuildStart 1000), Hook (RebuildFinish 1120)] example_world =
      Some [LOG (disc @ '' Rebuilding...''), LOG (disc @ '' Rebuilt in 120ms''), RELOAD]
   \<and> [LOG (disc @ '' Rebuilding...''), LOG (disc @ '' Rebuilt in 120ms''), RELOAD] ! 2 = RELOAD
   \<and> is_rebuilt_log ([LOG (disc @ '' Rebuilding...''), LOG (disc @ '' Rebuilt in 120ms''), RELOAD] ! (2 - 1))
   \<and> published_until_exit example_platform (Inr example_config) None None example_session example_world =
      Some [LOG (disc @ '' File changed: routes/index.tsx''), LOG (disc @ '' Rebuilding...''),
            LOG (disc @ '' Rebuilt in 120ms''), RELOAD]
   \<and> [LOG (disc @ '' File changed: routes/index.tsx''), LOG (disc @ '' Rebuilding...''),
       LOG (disc @ '' Rebuilt in 120ms''), RELOAD] ! 3 = RELOAD
   \<and> is_rebuilt_log ([LOG (disc @ '' File changed: routes/index.tsx''), LOG (disc @ '' Rebuilding...''),
       LOG (disc @ '' Rebuilt in 120ms''), RELOAD] ! (3 - 1))"
  using rebuild_finish_publishes_log_then_reload
    [of example_platform example_config "given_callbacks None" 120 example_closure example_world
        "Inr example_config" None None 0 "[Hook (RebuildStart 1000), Hook (RebuildFinish 1120)]"
        example_world "[LOG (disc @ '' Rebuilding...''), LOG (disc @ '' Rebuilt in 120ms''), RELOAD]" 2
        example_session
        "[LOG (disc @ '' File changed: routes/index.tsx''), LOG (disc @ '' Rebuilding...''),
            LOG (disc @ '' Rebuilt in 120ms''), RELOAD]" 3]
  by (simp add: example_defs run_defs Let_def)

text \<open>
  C2. The teardown that the claim describes is the continuation of lines 232-237, and
  \<^verbatim>\<open>watch\<close> never gets to run it: no call of \<^verbatim>\<open>watch\<close> returns. In the example
  project, when SIGINT arrives after a rebuild, the call ends with the exit of the
  process with code 130; its trace holds none of the four calls of the teardown, and the
  file in the assets build directory and the server build file are still there. Had the
  continuation run in that world, it would have closed the WebSocket server, awaited the
  stop function of the watcher, emptied the assets build directory and removed the server
  build file, in this order, and both files would be gone.
\<close>

theorem watch_exits_before_its_teardown:
  "watch plat remixRootOrConfig modeArg callbacks run w \<noteq> Inr w'
   \<and> watch example_platform (Inr example_config) None None example_session example_world =
       Inl (ProcessExit 130,
            final_world (watch example_platform (Inr example_config) None None example_session
                           example_world))
   \<and> trace (final_world (watch example_platform (Inr example_config) None None example_session
                             example_world)) =
       [ConsoleLog ''Watching Remix app in development mode...'', NewWebSocketServer 8002,
        CompilerWatch ''development'', ConsoleLog (disc @ '' Built in 120ms''), ExitHook,
        ConsoleLog (disc @ '' File changed: routes/index.tsx''),
        ConsoleLog (disc @ '' Rebuilding...''), ConsoleLog (disc @ '' Rebuilt in 120ms'')]
   \<and> files (final_world (watch example_platform (Inr example_config) None None example_session
                             example_world))
         [''app'', ''public'', ''build'', ''entry.js''] = Some File
   \<and> files (final_world (watch example_platform (Inr example_config) None None example_session
                             example_world))
         [''app'', ''build'', ''index.js''] = Some File
   \<and> \<not> isl (watch_teardown example_platform example_config
               (example_closure,
                final_world (watch example_platform (Inr example_config) None None example_session
                               example_world)))
   \<and> drop 8 (trace (final_world (watch_teardown example_platform example_config
               (example_closure,
                final_world (watch example_platform (Inr example_config) None None example_session
                               example_world))))) =
       [WssClose, CloseWatcher, EmptyDirSync ''/app/public/build'', RmSync ''/app/build/index.js'']
   \<and> files (final_world (watch_teardown example_platform example_config
               (example_closure,
                final_world (watch example_platform (Inr example_config) None None example_session
                               example_world))))
         [''app'', ''public'', ''build'', ''entry.js''] = None
   \<and> files (final_world (watch_teardown example_platform example_config
               (example_closure,
                final_world (watch example_platform (Inr example_config) None None example_session
                               example_world))))
         [''app'', ''build'', ''index.js''] = None"
proof -
  have never: "watch plat remixRootOrConfig modeArg callbacks run w \<noteq> Inr w'"
    by (simp add: watch_def split: sum.splits prod.splits)
  have ended:
    "watch example_platform (Inr example_config) None None example_session example_world =
       Inl (ProcessExit 130,
            example_world
              \<lparr>trace :=
                 [ConsoleLog ''Watching Remix app in development mode...'', NewWebSocketServer 8002,
                  CompilerWatch ''development'', ConsoleLog (disc @ '' Built in 120ms''), ExitHook,
                  ConsoleLog (disc @ '' File changed: routes/index.tsx''),
                  ConsoleLog (disc @ '' Rebuilding...''), ConsoleLog (disc @ '' Rebuilt in 120ms'')]\<rparr>)"
    by (simp add: watch_def example_defs run_defs Let_def)
  show ?thesis
    unfolding ended
    by (simp add: never)
       (simp add: example_defs watch_teardown_def emptyDirSync_def rmSync_def fs_emptyDir_def
          fs_rm_def resolve_def inside_def emit_def Let_def)
qed

text \<open>
  C3. When the configuration that \<^verbatim>\<open>dev\<close> reads has a server entry point (a non-empty
  string, which is what line 264 tests), \<^verbatim>\<open>dev\<close> throws, and all it has called by
  then is the loading of \<^verbatim>\<open>@remix-run/serve\<close>, \<^verbatim>\<open>readConfig\<close>, \<^verbatim>\<open>loadEnv\<close> and
  \<^verbatim>\<open>getPort\<close>: no express application is created, nothing listens, no WebSocket
  server is opened, since \<^verbatim>\<open>watch\<close> is not called. When the package is installed and
  a port was found, the error is the one of line 265.
\<close>

theorem dev_with_custom_server_fails_before_listening:
  "readConfig plat remixRoot = Inr config \<and> truthy (serverEntryPoint config) \<longrightarrow>
     (\<exists>e. dev plat remixRoot modeArg run w =
            Inl (e, w\<lparr>trace := trace w @
                        (if serve_installed plat
                         then [RequireServe, ReadConfig remixRoot, LoadEnv (rootDirectory config), GetPort]
                         else [RequireServe])\<rparr>)
          \<and> (serve_installed plat \<and> \<not> isl (getPort plat) \<longrightarrow>
               e = Error ''remix dev is not supported for custom servers.''))"
  by (cases "getPort plat") (auto simp: dev_def dev_prepare_def Let_def emit_def)

theorem dev_with_custom_server_fails_before_listening_witness:
  "readConfig custom_server_platform ''/app'' = Inr (example_config\<lparr>serverEntryPoint := Some ''/app/server.js''\<rparr>)
   \<and> truthy (serverEntryPoint (example_config\<lparr>serverEntryPoint := Some ''/app/server.js''\<rparr>))
   \<and> serve_installed custom_server_platform \<and> \<not> isl (getPort custom_server_platform)
   \<and> dev custom_server_platform ''/app'' None example_session example_world =
       Inl (Error ''remix dev is not supported for custom servers.'',
            example_world\<lparr>trace := [RequireServe, ReadConfig ''/app'', LoadEnv ''/app'', GetPort]\<rparr>)"
  using dev_with_custom_server_fails_before_listening
    [of custom_server_platform "''/app''" "example_config\<lparr>serverEntryPoint := Some ''/app/server.js''\<rparr>"
        None example_session example_world]
  by (simp add: example_defs)

text \<open>
  C4, as stated, fails: the purge removes entries whose key is not rooted under the build
  path. The test of line 309 is a test on strings, so a key that goes on with other
  characters after the build path, in the same name, is removed as well: for the build
  path \<^verbatim>\<open>/app/build\<close> the module \<^verbatim>\<open>/app/build-tools/x.js\<close>, and for the build path
  \<^verbatim>\<open>/app/build/index.js\<close> the file \<^verbatim>\<open>/app/build/index.js.map\<close>.
\<close>

theorem purge_removes_keys_not_rooted_under_the_build_path:
  "\<not> rooted_under ''/app/build'' ''/app/build-tools/x.js''
   \<and> purgeAppRequireCache ''/app/build'' [(''/app/build-tools/x.js'', 1::nat)] = []
   \<and> \<not> rooted_under ''/app/build/index.js'' ''/app/build/index.js.map''
   \<and> purgeAppRequireCache ''/app/build/index.js'' [(''/app/build/index.js.map'', 1::nat)] = []"
  by (simp add: rooted_under_def purge_filter startsWith_def)

text \<open>
  C4, amended. For every cache and build path, the purge removes exactly the entries whose
  key starts with the build path, as a string (the test of line 309); the entries whose
  key does not start with it all remain, unchanged and in their order. In the application
  that \<^verbatim>\<open>dev\<close> builds, at any moment while it is watching, a request reaches the
  handler of \<^verbatim>\<open>createApp\<close> only after the purge: the handler is given the purged
  cache, for every cache and every request.
\<close>

theorem purge_removes_exactly_the_keys_that_start_with_the_build_path:
  "purgeAppRequireCache buildPath cache = filter (\<lambda>entry. \<not> startsWith (fst entry) buildPath) cache
   \<and> (readConfig plat remixRoot = Inr config \<and>
      (dev_until_resolved plat remixRoot modeArg now ticks w = Inr w2 \<or>
       dev_until_exit plat remixRoot modeArg run w = Inr w2) \<longrightarrow>
        dispatch handler (app_stack (trace w2)) cache request =
          (case handler (serverBuildPath config) (dev_mode plat modeArg)
                  (purgeAppRequireCache (serverBuildPath config) cache) request of
             (cache', response) \<Rightarrow> (cache', Some response)))"
proof (intro conjI impI)
  show "purgeAppRequireCache buildPath cache = filter (\<lambda>entry. \<not> startsWith (fst entry) buildPath) cache"
    by (rule purge_filter)
next
  assume a: "readConfig plat remixRoot = Inr config \<and>
      (dev_until_resolved plat remixRoot modeArg now ticks w = Inr w2 \<or>
       dev_until_exit plat remixRoot modeArg run w = Inr w2)"
  then have "app_stack (trace w2) =
    [PurgeMiddleware (serverBuildPath config), CreateApp (serverBuildPath config) (dev_mode plat modeArg)]"
    using dev_until_resolved_stack dev_until_exit_stack by blast
  then show "dispatch handler (app_stack (trace w2)) cache request =
          (case handler (serverBuildPath config) (dev_mode plat modeArg)
                  (purgeAppRequireCache (serverBuildPath config) cache) request of
             (cache', response) \<Rightarrow> (cache', Some response))"
    by simp
qed

theorem purge_removes_exactly_the_keys_that_start_with_the_build_path_witness:
  "purgeAppRequireCache ''/app/build/index.js'' example_cache = [(''/app/node_modules/react/index.js'', 2)]
   \<and> startsWith ''/app/build/index.js'' ''/app/build/index.js''
   \<and> \<not> startsWith ''/app/node_modules/react/index.js'' ''/app/build/index.js''
   \<and> readConfig example_platform ''/app'' = Inr example_config
   \<and> dev_until_resolved example_platform ''/app'' None 0 [Hook InitialBuild] example_world =
       Inr example_serving_world
   \<and> dispatch example_handler (app_stack (trace example_serving_world)) example_cache () =
       ([(''/app/node_modules/react/index.js'', 2)], Some [''/app/node_modules/react/index.js''])"
  using purge_removes_exactly_the_keys_that_start_with_the_build_path
    [of "''/app/build/index.js''" example_cache example_platform "''/app''"
        example_config None 0 "[Hook InitialBuild]" example_world example_serving_world
        example_session example_handler "()"]
  by (simp add: example_defs example_world_defs dev_defs run_defs startsWith_def Let_def)

text \<open>
  C5. When a timer of \<^verbatim>\<open>broadcast\<close> fires, every connection whose state is open is sent
  the JSON text of the event, and every other connection is left as it was. The delivery
  returns without an error, whatever the states of the connections; the timer that fired
  is gone and no timer is added, and nothing else changes.
\<close>

theorem delivery_reaches_open_connections_only:
  "deliver plat event cls =
     Inr (map (\<lambda>cl. if readyState cl = OPEN
                     then cl\<lparr>sent := sent cl @ [JSON_stringify plat event]\<rparr> else cl) cls)
   \<and> watch_tick plat config cbs Timeout (c\<lparr>timers := (delay, event) # rest\<rparr>, w) =
       Inr (c\<lparr>clients := map (\<lambda>cl. if readyState cl = OPEN
                                   then cl\<lparr>sent := sent cl @ [JSON_stringify plat event]\<rparr> else cl)
                            (clients c),
              timers := rest\<rparr>, w)"
  by (simp add: deliver_map timer_fires_def)

text \<open>
  C6, as stated, fails: the hook of the initial build is the caller's callback and
  publishes nothing. With the callback of \<^verbatim>\<open>dev\<close> or with none, the events published
  after the initial build hook has fired are none, so it has not triggered one
  \<^verbatim>\<open>LOG\<close>.
\<close>

theorem initial_build_hook_publishes_no_log:
  "published (fst (watch_hook example_platform example_config (dev_callbacks example_platform 3000)
       InitialBuild (example_closure, example_world))) = []
   \<and> length (filter is_LOG (published (fst (watch_hook example_platform example_config
         (dev_callbacks example_platform 3000) InitialBuild (example_closure, example_world))))) \<noteq> 1
   \<and> published_until_resolved example_platform (Inr example_config) None None 0
        [Hook InitialBuild] example_world = Some []"
  by (simp add: example_defs run_defs dev_callbacks_def Let_def)

text \<open>
  C6, amended. Every hook other than the initial build (rebuild start, rebuild finish,
  file created, file changed, file deleted) publishes exactly one \<^verbatim>\<open>LOG\<close>, and the
  rebuild finish publishes one \<^verbatim>\<open>RELOAD\<close> after it; the initial build hook publishes
  nothing. A sequence of file-change hooks publishes one \<^verbatim>\<open>LOG\<close> for each file, in
  order, and nothing else. In a whole run of \<^verbatim>\<open>watch\<close>, the number of \<^verbatim>\<open>LOG\<close>
  events published is the number of hooks fired that are not the initial build, and the
  number of \<^verbatim>\<open>RELOAD\<close> events is the number of rebuild-finish hooks.
\<close>

theorem every_hook_but_initial_build_publishes_one_log:
  "(h \<noteq> InitialBuild \<longrightarrow>
      (\<exists>message. published (fst (watch_hook plat config cbs h (c, w))) =
         published c @ LOG message # (if is_RebuildFinish h then [RELOAD] else [])))
   \<and> published (fst (watch_hook plat config cbs InitialBuild (c, w))) = published c
   \<and> (\<exists>c' w'. watch_ticks plat config cbs (map (\<lambda>file. Hook (FileChanged file)) fs) (c, w) = Inr (c', w') \<and>
         published c' =
           published c @ map (\<lambda>file. LOG (disc @ '' File changed: '' @ path_relative plat (cwd plat) file)) fs)
   \<and> (published_until_exit plat remixRootOrConfig modeArg callbacks run w0 = Some ps \<longrightarrow>
        length (filter is_LOG ps) =
          length (filter (\<lambda>h. h \<noteq> InitialBuild) (hooks_of (initial_ticks run @ later_ticks run))) \<and>
        length (filter (\<lambda>e. e = RELOAD) ps) =
          length (filter is_RebuildFinish (hooks_of (initial_ticks run @ later_ticks run))))"
proof (intro conjI impI)
  assume "h \<noteq> InitialBuild"
  then show "\<exists>message. published (fst (watch_hook plat config cbs h (c, w))) =
         published c @ LOG message # (if is_RebuildFinish h then [RELOAD] else [])"
    by (cases h) (simp_all add: published_watch_hook del: watch_hook.simps)
next
  show "published (fst (watch_hook plat config cbs InitialBuild (c, w))) = published c"
    by simp
next
  show "\<exists>c' w'. watch_ticks plat config cbs (map (\<lambda>file. Hook (FileChanged file)) fs) (c, w) = Inr (c', w') \<and>
         published c' =
           published c @ map (\<lambda>file. LOG (disc @ '' File changed: '' @ path_relative plat (cwd plat) file)) fs"
    by (rule watch_ticks_file_changes)
next
  assume "published_until_exit plat remixRootOrConfig modeArg callbacks run w0 = Some ps"
  with published_until_exit_Some obtain config2 c2 w2 where
    exit: "watch_until_exit plat remixRootOrConfig modeArg callbacks run w0 = Inr (config2, c2, w2)"
    and ps: "ps = published c2" by blast
  have reload: "(\<lambda>e. e = RELOAD) = (\<lambda>e. \<not> is_LOG e)"
  proof
    fix e show "(e = RELOAD) = (\<not> is_LOG e)" by (cases e) simp_all
  qed
  from until_exit_closure(2) [OF exit] ps
  show "length (filter is_LOG ps) =
          length (filter (\<lambda>h. h \<noteq> InitialBuild) (hooks_of (initial_ticks run @ later_ticks run)))"
    by simp
  from until_exit_closure(3) [OF exit] ps
  show "length (filter (\<lambda>e. e = RELOAD) ps) =
          length (filter is_RebuildFinish (hooks_of (initial_ticks run @ later_ticks run)))"
    by (simp add: reload)
qed

theorem every_hook_but_initial_build_publishes_one_log_witness:
  "FileChanged ''/app/routes/index.tsx'' \<noteq> InitialBuild
   \<and> published (fst (watch_hook example_platform example_config (given_callbacks None)
         (FileChanged ''/app/routes/index.tsx'') (example_closure, example_world))) =
       [LOG (disc @ '' File changed: routes/index.tsx'')]
   \<and> published_until_exit example_platform (Inr example_config) None None example_session example_world =
       Some [LOG (disc @ '' File changed: routes/index.tsx''), LOG (disc @ '' Rebuilding...''),
             LOG (disc @ '' Rebuilt in 120ms''), RELOAD]
   \<and> hooks_of (initial_ticks example_session @ later_ticks example_session) =
       [InitialBuild, FileChanged ''/app/routes/index.tsx'', RebuildStart 1000, RebuildFinish 1120]
   \<and> length (filter is_LOG [LOG (disc @ '' File changed: routes/index.tsx''), LOG (disc @ '' Rebuilding...''),
             LOG (disc @ '' Rebuilt in 120ms''), RELOAD]) = 3
   \<and> length (filter (\<lambda>e. e = RELOAD) [LOG (disc @ '' File changed: routes/index.tsx''),
             LOG (disc @ '' Rebuilding...''), LOG (disc @ '' Rebuilt in 120ms''), RELOAD]) = 1"
  using every_hook_but_initial_build_publishes_one_log
    [of "FileChanged ''/app/routes/index.tsx''" example_platform example_config "given_callbacks None"
        example_closure example_world "[]" "Inr example_config" None None example_session example_world
        "[LOG (disc @ '' File changed: routes/index.tsx''), LOG (disc @ '' Rebuilding...''),
             LOG (disc @ '' Rebuilt in 120ms''), RELOAD]"]
  by (simp add: example_defs run_defs Let_def)

text \<open>
  C7. When \<^verbatim>\<open>dev\<close> calls \<^verbatim>\<open>watch\<close> the variable \<^verbatim>\<open>server\<close> is null and
  \<^verbatim>\<open>app.listen\<close> has not been called. At any moment of the run, while \<^verbatim>\<open>watch\<close>
  waits for \<^verbatim>\<open>compiler.watch\<close> or for the exit hook, the number of calls of
  \<^verbatim>\<open>app.listen\<close> made by \<^verbatim>\<open>dev\<close> is the number of times the initial build hook has
  fired; as long as it has not fired, \<^verbatim>\<open>server\<close> is null and nothing listens.
\<close>

theorem dev_listens_only_in_the_initial_build_hook:
  "(dev_prepare plat remixRoot modeArg w = Inr (config, mode, port, w1) \<longrightarrow>
      server w1 = None \<and> listens (trace w1) = listens (trace w))
   \<and> (dev_until_resolved plat remixRoot modeArg now ticks w = Inr w2 \<longrightarrow>
        length (listens (trace w2)) =
          length (listens (trace w)) + length (filter (\<lambda>h. h = InitialBuild) (hooks_of ticks)) \<and>
        (InitialBuild \<notin> set (hooks_of ticks) \<longrightarrow>
           server w2 = None \<and> listens (trace w2) = listens (trace w)))
   \<and> (dev_until_exit plat remixRoot modeArg run w = Inr w3 \<longrightarrow>
        length (listens (trace w3)) =
          length (listens (trace w)) +
          length (filter (\<lambda>h. h = InitialBuild) (hooks_of (initial_ticks run @ later_ticks run))) \<and>
        (InitialBuild \<notin> set (hooks_of (initial_ticks run @ later_ticks run)) \<longrightarrow>
           server w3 = None \<and> listens (trace w3) = listens (trace w)))"
proof (intro conjI impI)
  assume "dev_prepare plat remixRoot modeArg w = Inr (config, mode, port, w1)"
  from dev_prepare_Inr(1,6) [OF this]
  show "server w1 = None" and "listens (trace w1) = listens (trace w)" by simp_all
next
  assume r: "dev_until_resolved plat remixRoot modeArg now ticks w = Inr w2"
  from dev_until_resolved_listens(1) [OF r]
  show "length (listens (trace w2)) =
          length (listens (trace w)) + length (filter (\<lambda>h. h = InitialBuild) (hooks_of ticks))" .
  assume "InitialBuild \<notin> set (hooks_of ticks)"
  from dev_until_resolved_listens(2) [OF r this]
  show "server w2 = None" and "listens (trace w2) = listens (trace w)" by simp_all
next
  assume r: "dev_until_exit plat remixRoot modeArg run w = Inr w3"
  from dev_until_exit_listens(1) [OF r]
  show "length (listens (trace w3)) =
          length (listens (trace w)) +
          length (filter (\<lambda>h. h = InitialBuild) (hooks_of (initial_ticks run @ later_ticks run)))" .
  assume "InitialBuild \<notin> set (hooks_of (initial_ticks run @ later_ticks run))"
  from dev_until_exit_listens(2) [OF r this]
  show "server w3 = None" and "listens (trace w3) = listens (trace w)" by simp_all
qed

theorem dev_listens_only_in_the_initial_build_hook_witness:
  "dev_prepare example_platform ''/app'' None example_world =
     Inr (example_config, ''development'', 3000, example_prepared_world)
   \<and> server example_prepared_world = None \<and> listens (trace example_prepared_world) = []
   \<and> dev_until_resolved example_platform ''/app'' None 0 [Hook (FileChanged ''/app/routes/index.tsx'')]
        example_world =
       Inr (example_world\<lparr>trace := trace example_watching_world @
              [ConsoleLog (disc @ '' File changed: routes/index.tsx'')]\<rparr>)
   \<and> InitialBuild \<notin> set (hooks_of [Hook (FileChanged ''/app/routes/index.tsx'')])
   \<and> server (example_world\<lparr>trace := trace example_watching_world @
              [ConsoleLog (disc @ '' File changed: routes/index.tsx'')]\<rparr>) = None
   \<and> listens (trace (example_world\<lparr>trace := trace example_watching_world @
              [ConsoleLog (disc @ '' File changed: routes/index.tsx'')]\<rparr>)) = []
   \<and> dev_until_exit example_platform ''/app'' None example_quiet_session example_world =
       Inr (example_world\<lparr>trace := trace example_watching_world @
              [ConsoleLog (disc @ '' File changed: routes/index.tsx''),
               ConsoleLog (disc @ '' Built in 120ms''), ExitHook,
               ConsoleLog (disc @ '' Rebuilding...'')]\<rparr>)
   \<and> InitialBuild \<notin> set (hooks_of (initial_ticks example_quiet_session @ later_ticks example_quiet_session))
   \<and> server (example_world\<lparr>trace := trace example_watching_world @
              [ConsoleLog (disc @ '' File changed: routes/index.tsx''),
               ConsoleLog (disc @ '' Built in 120ms''), ExitHook,
               ConsoleLog (disc @ '' Rebuilding...'')]\<rparr>) = None
   \<and> dev_until_resolved example_platform ''/app'' None 0 [Hook InitialBuild] example_world =
       Inr example_serving_world
   \<and> length (listens (trace example_serving_world)) = 1
   \<and> server example_serving_world = Some (3000, None)"
  using dev_listens_only_in_the_initial_build_hook
    [of example_platform "''/app''" None example_world example_config "''development''" 3000
        example_prepared_world 0 "[Hook InitialBuild]" example_serving_world example_quiet_session
        "example_world\<lparr>trace := trace example_watching_world @
              [ConsoleLog (disc @ '' File changed: routes/index.tsx''),
               ConsoleLog (disc @ '' Built in 120ms''), ExitHook,
               ConsoleLog (disc @ '' Rebuilding...'')]\<rparr>"]
  using dev_listens_only_in_the_initial_build_hook
    [of example_platform "''/app''" None example_world example_config "''development''" 3000
        example_prepared_world 0 "[Hook (FileChanged ''/app/routes/index.tsx'')]"
        "example_world\<lparr>trace := trace example_watching_world @
              [ConsoleLog (disc @ '' File changed: routes/index.tsx'')]\<rparr>"
        example_quiet_session
        "example_world\<lparr>trace := trace example_watching_world @
              [ConsoleLog (disc @ '' File changed: routes/index.tsx''),
               ConsoleLog (disc @ '' Built in 120ms''), ExitHook,
               ConsoleLog (disc @ '' Rebuilding...'')]\<rparr>"]
  by (simp add: example_defs example_world_defs example_quiet_session_def dev_defs run_defs Let_def)


text \<open>
  C9. The \<^verbatim>\<open>finally\<close> block of \<^verbatim>\<open>dev\<close> leaves the world as it is when \<^verbatim>\<open>server\<close>
  is null. In a run of \<^verbatim>\<open>dev\<close> in which the initial build hook never fires,
  \<^verbatim>\<open>server\<close> is null when \<^verbatim>\<open>watch\<close> ends, whether it returned or threw, and the
  outcome of \<^verbatim>\<open>dev\<close> is the outcome of \<^verbatim>\<open>watch\<close>, unchanged: the close step adds
  no call and no error.
\<close>

theorem dev_closes_no_server_that_was_never_opened:
  "(server w = None \<longrightarrow> dev_finally w = w)
   \<and> (dev_prepare plat remixRoot modeArg w0 = Inr (config, mode, port, w1) \<and>
      InitialBuild \<notin> set (hooks_of (initial_ticks run @ later_ticks run)) \<longrightarrow>
        server (final_world (watch plat (Inr config) (Some mode) (Some (dev_callbacks plat port)) run w1)) = None \<and>
        dev plat remixRoot modeArg run w0 =
          watch plat (Inr config) (Some mode) (Some (dev_callbacks plat port)) run w1)"
proof (intro conjI impI)
  assume "server w = None"
  then show "dev_finally w = w" by (rule dev_finally_None)
next
  assume a: "dev_prepare plat remixRoot modeArg w0 = Inr (config, mode, port, w1) \<and>
      InitialBuild \<notin> set (hooks_of (initial_ticks run @ later_ticks run))"
  then have prepared: "dev_prepare plat remixRoot modeArg w0 = Inr (config, mode, port, w1)"
    and no: "InitialBuild \<notin> set (hooks_of (initial_ticks run @ later_ticks run))"
      "InitialBuild \<notin> set (hooks_of (initial_ticks run))"
    by (simp_all add: hooks_of_append)
  from prepared have
    "server (final_world (watch plat (Inr config) (Some mode) (Some (dev_callbacks plat port)) run w1)) = None \<and>
     dev plat remixRoot modeArg run w0 =
       watch plat (Inr config) (Some mode) (Some (dev_callbacks plat port)) run w1"
  proof (cases rule: dev_watch_ends [where run = run])
    case (exited c w2)
    from dev_until_exit_listens(2) [OF exited(2) no(1)] have "server w2 = None" by simp
    with exited(1) prepared show ?thesis
      by (simp add: watch_def dev_def)
  next
    case (rejected e w2)
    from dev_until_resolved_listens(2) [OF rejected(2) no(2)] have "server w2 = None" by simp
    with rejected(1) prepared show ?thesis
      by (simp add: watch_def dev_def dev_finally_None split: error.splits)
  qed
  then show "server (final_world (watch plat (Inr config) (Some mode) (Some (dev_callbacks plat port)) run w1)) = None"
    and "dev plat remixRoot modeArg run w0 =
          watch plat (Inr config) (Some mode) (Some (dev_callbacks plat port)) run w1"
    by simp_all
qed

theorem dev_closes_no_server_that_was_never_opened_witness:
  "server example_watching_world = None \<and> dev_finally example_watching_world = example_watching_world
   \<and> dev_prepare example_platform ''/app'' None example_world =
       Inr (example_config, ''development'', 3000, example_prepared_world)
   \<and> InitialBuild \<notin> set (hooks_of (initial_ticks example_failing_session @ later_ticks example_failing_session))
   \<and> watch example_platform (Inr example_config) (Some ''development'')
         (Some (dev_callbacks example_platform 3000)) example_failing_session example_prepared_world =
       Inl (Error ''watch failed'', example_watching_world)
   \<and> dev example_platform ''/app'' None example_failing_session example_world =
       Inl (Error ''watch failed'', example_watching_world)"
  using dev_closes_no_server_that_was_never_opened
    [of example_watching_world example_platform "''/app''" None example_world example_config
        "''development''" 3000 example_prepared_world example_failing_session]
  by (simp add: example_defs example_world_defs example_failing_session_def dev_defs run_defs Let_def
      dev_def watch_def dev_finally_def)

text \<open>
  C10. When the mode argument is absent or is not a build mode, \<^verbatim>\<open>build\<close> runs in
  production mode (it announces that mode and, when it gets to compile, compiles in it),
  and \<^verbatim>\<open>watch\<close> and \<^verbatim>\<open>dev\<close> run in development mode (\<^verbatim>\<open>watch\<close> starts the compiler
  in it, \<^verbatim>\<open>dev\<close> creates the application in it).
\<close>

theorem default_modes_of_the_commands:
  "modeArg = None \<or> (\<exists>m. modeArg = Some m \<and> \<not> isBuildMode plat m) \<longrightarrow>
     build_mode plat modeArg = BuildMode_Production
     \<and> watch_mode plat modeArg = BuildMode_Development
     \<and> dev_mode plat modeArg = BuildMode_Development
     \<and> (\<exists>rest. trace (final_world (build plat remixRoot modeArg sourcemap now0 now1 w)) =
           trace w @ LoggingLog (''Building Remix app in '' @ BuildMode_Production @ '' mode...'') # rest)
     \<and> (\<not> isl (build plat remixRoot modeArg sourcemap now0 now1 w) \<longrightarrow>
           CompilerBuild BuildMode_Production sourcemap \<in>
             set (trace (final_world (build plat remixRoot modeArg sourcemap now0 now1 w))))
     \<and> (watch_open plat remixRootOrConfig modeArg now w = Inr (config, mode, c, w1) \<longrightarrow>
           mode = BuildMode_Development \<and> last (trace w1) = CompilerWatch BuildMode_Development)
     \<and> (dev_prepare plat remixRoot modeArg w = Inr (config', mode', port, w2) \<longrightarrow>
           mode' = BuildMode_Development \<and>
           last (trace w2) = AppUse (CreateApp (serverBuildPath config') BuildMode_Development))"
proof (intro impI)
  assume a: "modeArg = None \<or> (\<exists>m. modeArg = Some m \<and> \<not> isBuildMode plat m)"
  then have modes: "build_mode plat modeArg = BuildMode_Production" "watch_mode plat modeArg = BuildMode_Development"
    "dev_mode plat modeArg = BuildMode_Development"
    by (auto simp: build_mode_def watch_mode_def dev_mode_def)
  from build_first_effect [of plat remixRoot modeArg sourcemap now0 now1 w] modes(1)
  have first: "\<exists>rest. trace (final_world (build plat remixRoot modeArg sourcemap now0 now1 w)) =
           trace w @ LoggingLog (''Building Remix app in '' @ BuildMode_Production @ '' mode...'') # rest"
    by simp
  have compiled: "\<not> isl (build plat remixRoot modeArg sourcemap now0 now1 w) \<longrightarrow>
           CompilerBuild BuildMode_Production sourcemap \<in>
             set (trace (final_world (build plat remixRoot modeArg sourcemap now0 now1 w)))"
    using build_compiles_in_mode [of plat remixRoot modeArg sourcemap now0 now1 w] modes(1)
    by (cases "build plat remixRoot modeArg sourcemap now0 now1 w") auto
  have watching: "watch_open plat remixRootOrConfig modeArg now w = Inr (config, mode, c, w1) \<longrightarrow>
           mode = BuildMode_Development \<and> last (trace w1) = CompilerWatch BuildMode_Development"
    using modes(2) by (auto simp: watch_open_def Let_def split: sum.splits)
  have serving: "dev_prepare plat remixRoot modeArg w = Inr (config', mode', port, w2) \<longrightarrow>
           mode' = BuildMode_Development \<and>
           last (trace w2) = AppUse (CreateApp (serverBuildPath config') BuildMode_Development)"
    using modes(3) dev_prepare_Inr(3,6) [of plat remixRoot modeArg w config' mode' port w2] by auto
  from modes first compiled watching serving
  show "build_mode plat modeArg = BuildMode_Production
     \<and> watch_mode plat modeArg = BuildMode_Development
     \<and> dev_mode plat modeArg = BuildMode_Development
     \<and> (\<exists>rest. trace (final_world (build plat remixRoot modeArg sourcemap now0 now1 w)) =
           trace w @ LoggingLog (''Building Remix app in '' @ BuildMode_Production @ '' mode...'') # rest)
     \<and> (\<not> isl (build plat remixRoot modeArg sourcemap now0 now1 w) \<longrightarrow>
           CompilerBuild BuildMode_Production sourcemap \<in>
             set (trace (final_world (build plat remixRoot modeArg sourcemap now0 now1 w))))
     \<and> (watch_open plat remixRootOrConfig modeArg now w = Inr (config, mode, c, w1) \<longrightarrow>
           mode = BuildMode_Development \<and> last (trace w1) = CompilerWatch BuildMode_Development)
     \<and> (dev_prepare plat remixRoot modeArg w = Inr (config', mode', port, w2) \<longrightarrow>
           mode' = BuildMode_Development \<and>
           last (trace w2) = AppUse (CreateApp (serverBuildPath config') BuildMode_Development))"
    by blast
qed

theorem default_modes_of_the_commands_witness:
  "\<not> isBuildMode example_platform ''staging''
   \<and> build_mode example_platform (Some ''staging'') = ''production''
   \<and> watch_mode example_platform (Some ''staging'') = ''development''
   \<and> dev_mode example_platform (Some ''staging'') = ''development''
   \<and> \<not> isl (build example_platform ''/app'' (Some ''staging'') False 0 120 example_world)
   \<and> trace (final_world (build example_platform ''/app'' (Some ''staging'') False 0 120 example_world)) =
       [LoggingLog ''Building Remix app in production mode...'', ReadConfig ''/app'',
        EmptyDirSync ''/app/public/build'', CompilerBuild ''production'' False,
        LoggingLog ''Built in 120ms'']
   \<and> watch_open example_platform (Inr example_config) (Some ''staging'') 0 example_world =
       Inr (example_config, ''development'', example_closure,
            example_world\<lparr>trace := [ConsoleLog ''Watching Remix app in development mode...'',
                                      NewWebSocketServer 8002, CompilerWatch ''development'']\<rparr>)
   \<and> dev_prepare example_platform ''/app'' (Some ''staging'') example_world =
       Inr (example_config, ''development'', 3000, example_prepared_world)
   \<and> build_mode example_platform None = ''production''
   \<and> watch_mode example_platform None = ''development''
   \<and> dev_mode example_platform None = ''development''"
  using default_modes_of_the_commands
    [of "Some ''staging''" example_platform "''/app''" False 0 120 example_world "Inr example_config" 0
        example_config "''development''" example_closure
        "example_world\<lparr>trace := [ConsoleLog ''Watching Remix app in development mode...'',
                                      NewWebSocketServer 8002, CompilerWatch ''development'']\<rparr>"
        example_config "''development''" 3000 example_prepared_world]
  using default_modes_of_the_commands
    [of None example_platform "''/app''" False 0 120 example_world "Inr example_config" 0
        example_config "''development''" example_closure
        "example_world\<lparr>trace := [ConsoleLog ''Watching Remix app in development mode...'',
                                      NewWebSocketServer 8002, CompilerWatch ''development'']\<rparr>"
        example_config "''development''" 3000 example_prepared_world]
  by (simp add: example_defs example_world_defs dev_defs run_defs Let_def build_def build_mode_def
      BuildMode_Production_def emptyDirSync_def fs_emptyDir_def resolve_def inside_def)

end
